theory Spec2Isabelle
  imports Main
begin

section \<open>JavaScript values as the listener reads them\<close>

text \<open>
  The listener (\<^verbatim>\<open>src/index.js\<close>) works on untyped JSON: the webhook body parsed by
  body-parser and the \<^verbatim>\<open>data\<close> of the responses of axios. A value is modelled as

  \<^item> \<open>JUndef\<close>, the value of a variable never assigned and of a property that is absent;
  \<^item> \<open>JNull\<close>, \<open>JBool\<close>, \<open>JStr\<close>;
  \<^item> \<open>JNum\<close>, a number carried by the text JavaScript prints for it (\<^verbatim>\<open>String(n)\<close>):
    the listener never calculates with a number, it prints or compares it;
  \<^item> \<open>JArr\<close>, an array without holes;
  \<^item> \<open>JObj\<close>, a plain object: its own properties in the order \<^verbatim>\<open>for ... in\<close> enumerates
    them. Keys are pairwise distinct in any object JavaScript holds; on a list with a
    repeated key the model reads the first binding and enumerates the key once.
\<close>

datatype jsval =
    JUndef
  | JNull
  | JBool bool
  | JNum string
  | JStr string
  | JArr "jsval list"
  | JObj "(string \<times> jsval) list"

datatype js_error =
    TypeError
  | AxiosError string

text \<open>A promise, once it has settled: fulfilled with a value or rejected with an error.\<close>

datatype 'a promise =
    Fulfilled 'a
  | Rejected js_error

fun nullish :: "jsval \<Rightarrow> bool" where
  "nullish JUndef = True"
| "nullish JNull = True"
| "nullish _ = False"

fun join :: "string \<Rightarrow> string list \<Rightarrow> string" where
  "join sep [] = []"
| "join sep [x] = x"
| "join sep (x # y # ys) = x @ sep @ join sep (y # ys)"

text \<open>The results of a list of evaluations in order, up to the first that throws.\<close>

fun all_right :: "('e + 'a) list \<Rightarrow> 'e + 'a list" where
  "all_right [] = Inr []"
| "all_right (Inl e # rs) = Inl e"
| "all_right (Inr x # rs) = (case all_right rs of Inl e \<Rightarrow> Inl e | Inr xs \<Rightarrow> Inr (x # xs))"

text \<open>
  \<^verbatim>\<open>ToString\<close>, as a template literal, a computed property key and \<^verbatim>\<open>+\<close> with a string
  operand apply it. An array prints its elements joined by commas, \<^verbatim>\<open>null\<close> and
  \<^verbatim>\<open>undefined\<close> elements as the empty string. A plain object prints as
  \<^verbatim>\<open>[object Object]\<close> through the \<^verbatim>\<open>toString\<close> it inherits; when it has a property
  \<^verbatim>\<open>toString\<close> of its own (as \<^verbatim>\<open>{"toString":1}\<close>, never a function in JSON), the
  conversion finds no method that returns a primitive and throws a \<^verbatim>\<open>TypeError\<close>, also
  when the object is an element of an array that is printed.
\<close>

fun ToString :: "jsval \<Rightarrow> js_error + string" where
  "ToString JUndef = Inr ''undefined''"
| "ToString JNull = Inr ''null''"
| "ToString (JBool b) = Inr (if b then ''true'' else ''false'')"
| "ToString (JNum n) = Inr n"
| "ToString (JStr s) = Inr s"
| "ToString (JArr xs) =
     (case all_right (map (\<lambda>x. if nullish x then Inr [] else ToString x) xs) of
        Inl e \<Rightarrow> Inl e
      | Inr ss \<Rightarrow> Inr (join '','' ss))"
| "ToString (JObj kvs) =
     (case map_of kvs ''toString'' of
        None \<Rightarrow> Inr ''[object Object]''
      | Some _ \<Rightarrow> Inl TypeError)"

text \<open>Array indices as property keys: the decimal numeral of the index.\<close>

definition digit :: "nat \<Rightarrow> char" where
  "digit d = ''0123456789'' ! d"

fun dec :: "nat \<Rightarrow> string" where
  "dec n = (if n < 10 then [digit n] else dec (n div 10) @ [digit (n mod 10)])"

declare dec.simps [simp del]

fun first_bindings :: "(string \<times> jsval) list \<Rightarrow> (string \<times> jsval) list" where
  "first_bindings [] = []"
| "first_bindings ((k, v) # kvs) = (k, v) # first_bindings (filter (\<lambda>(k', _). k' \<noteq> k) kvs)"

text \<open>
  The own enumerable properties of a value, in enumeration order: the bindings of an object,
  the elements of an array and the characters of a string under their indices, none for the
  other primitives.
\<close>

fun own_props :: "jsval \<Rightarrow> (string \<times> jsval) list" where
  "own_props (JObj kvs) = first_bindings kvs"
| "own_props (JArr xs) = zip (map dec [0..<length xs]) xs"
| "own_props (JStr s) = zip (map dec [0..<length s]) (map (\<lambda>c. JStr [c]) s)"
| "own_props _ = []"

text \<open>
  Property access \<^verbatim>\<open>v[k]\<close> and \<^verbatim>\<open>v.k\<close>: a \<^verbatim>\<open>TypeError\<close> on \<^verbatim>\<open>undefined\<close> and
  \<^verbatim>\<open>null\<close>, \<^verbatim>\<open>undefined\<close> for a property that is absent. The listener reads the names
  \<^verbatim>\<open>sys\<close>, \<^verbatim>\<open>id\<close>, \<^verbatim>\<open>space\<close>, \<^verbatim>\<open>type\<close>, \<^verbatim>\<open>updatedBy\<close>, \<^verbatim>\<open>fields\<close>, \<^verbatim>\<open>en-US\<close>,
  \<^verbatim>\<open>items\<close>, \<^verbatim>\<open>firstName\<close>, \<^verbatim>\<open>lastName\<close> and the keys that \<^verbatim>\<open>for ... in\<close> hands it,
  none of which a prototype provides, so own properties are all there is to read.
\<close>

definition get :: "jsval \<Rightarrow> string \<Rightarrow> js_error + jsval" where
  "get v k =
     (if nullish v then Inl TypeError
      else Inr (case map_of (own_props v) k of None \<Rightarrow> JUndef | Some x \<Rightarrow> x))"

text \<open>A chain of property accesses \<^verbatim>\<open>v.k1.k2...\<close>, stopping at the first \<^verbatim>\<open>TypeError\<close>.\<close>

fun get_path :: "jsval \<Rightarrow> string list \<Rightarrow> js_error + jsval" where
  "get_path v [] = Inr v"
| "get_path v (k # ks) = (case get v k of Inl e \<Rightarrow> Inl e | Inr x \<Rightarrow> get_path x ks)"

text \<open>The keys that \<^verbatim>\<open>for (var key in v)\<close> visits; none for \<^verbatim>\<open>undefined\<close> and \<^verbatim>\<open>null\<close>.\<close>

definition forin_keys :: "jsval \<Rightarrow> string list" where
  "forin_keys v = map fst (own_props v)"


section \<open>Loose equality\<close>

text \<open>
  The environment of the process: the two settings read from \<^verbatim>\<open>process.env\<close> (a string,
  \<open>None\<close> when unset), and what depends on the engine:

  \<^item> \<^verbatim>\<open>StringToNumber\<close>, the one floating-point operation the listener can reach (through
    \<^verbatim>\<open>==\<close> between a number or boolean and a string): the text of the number a string
    denotes, \<open>None\<close> for \<^verbatim>\<open>NaN\<close>;
  \<^item> \<open>Inherited\<close>, for a property name that an object literal inherits from
    \<^verbatim>\<open>Object.prototype\<close> (\<^verbatim>\<open>constructor\<close>, \<^verbatim>\<open>toString\<close>, ...), the text that the
    inherited value prints as; \<open>None\<close> for every other name.
\<close>

record env =
  slackURL :: "string option"
  cmaToken :: "string option"
  StringToNumber :: "string \<Rightarrow> string option"
  Inherited :: "string \<Rightarrow> string option"

definition env_value :: "string option \<Rightarrow> jsval" where
  "env_value v = (case v of None \<Rightarrow> JUndef | Some s \<Rightarrow> JStr s)"

definition var_text :: "string option \<Rightarrow> string" where
  "var_text v = (case v of None \<Rightarrow> ''undefined'' | Some s \<Rightarrow> s)"

text \<open>
  Whatever the parser, a string with a letter that no numeric literal has
  (outside the hexadecimal digits, the radix prefixes and \<^verbatim>\<open>Infinity\<close>) is \<^verbatim>\<open>NaN\<close>.
\<close>

definition non_numeric_letters :: "char list" where
  "non_numeric_letters = ''ghjklmpqrsuvwzGHJKLMNPQRSTUVWYZ''"

definition ToNumber_string :: "env \<Rightarrow> string \<Rightarrow> string option" where
  "ToNumber_string env s =
     (if list_ex (\<lambda>c. c \<in> set non_numeric_letters) s then None
      else StringToNumber env s)"

fun is_object :: "jsval \<Rightarrow> bool" where
  "is_object (JArr _) = True"
| "is_object (JObj _) = True"
| "is_object _ = False"

text \<open>
  \<^verbatim>\<open>ToPrimitive\<close>: an object or array becomes the string it prints as, or the conversion
  throws.
\<close>

definition ToPrimitive :: "jsval \<Rightarrow> js_error + jsval" where
  "ToPrimitive v =
     (if is_object v then (case ToString v of Inl e \<Rightarrow> Inl e | Inr s \<Rightarrow> Inr (JStr s))
      else Inr v)"

fun ToNumber :: "env \<Rightarrow> jsval \<Rightarrow> string option" where
  "ToNumber env (JNum n) = Some n"
| "ToNumber env (JBool b) = Some (if b then ''1'' else ''0'')"
| "ToNumber env (JStr s) = ToNumber_string env s"
| "ToNumber env _ = None"

text \<open>Two primitives, neither of them \<^verbatim>\<open>undefined\<close> or \<^verbatim>\<open>null\<close>.\<close>

definition primitives_eq :: "env \<Rightarrow> jsval \<Rightarrow> jsval \<Rightarrow> bool" where
  "primitives_eq env px py =
     (case (px, py) of
        (JStr a, JStr b) \<Rightarrow> a = b
      | _ \<Rightarrow>
          (case (ToNumber env px, ToNumber env py) of
             (Some a, Some b) \<Rightarrow> a = b
           | _ \<Rightarrow> False))"

text \<open>
  \<^verbatim>\<open>x == y\<close> (IsLooselyEqual). Two objects are equal only when they are the same
  object; the operands the listener compares come from different JSON documents (or one is
  a string literal), so two objects are never equal here. \<^verbatim>\<open>undefined\<close> and \<^verbatim>\<open>null\<close>
  equal each other and nothing else. Otherwise an object operand is converted to a primitive
  first, which can throw.
\<close>

definition loose_eq :: "env \<Rightarrow> jsval \<Rightarrow> jsval \<Rightarrow> js_error + bool" where
  "loose_eq env x y =
     (if is_object x \<and> is_object y then Inr False
      else if nullish x \<or> nullish y then Inr (nullish x \<and> nullish y)
      else (case ToPrimitive x of
              Inl e \<Rightarrow> Inl e
            | Inr px \<Rightarrow>
                (case ToPrimitive y of
                   Inl e \<Rightarrow> Inl e
                 | Inr py \<Rightarrow> Inr (primitives_eq env px py))))"

section \<open>The listener's data\<close>

text \<open>The Slack message of lines 66 to 81, an object literal of fixed shape.\<close>

record field =
  title :: string
  value_field :: jsval
  short :: bool

record attachment =
  fallback :: string
  pretext :: string
  color :: string
  fields_a :: "field list"

record message =
  username :: string
  icon_emoji :: string
  attachments :: "attachment list"

text \<open>
  An outbound call of axios. \<^verbatim>\<open>JSON.stringify\<close> is kept symbolic: the data of the
  Slack call is the JSON text of a message, and the model keeps the message.
\<close>

datatype payload =
    NoData
  | JSON_stringify message

record http_request =
  url :: jsval
  http_method :: string
  headers :: "(string \<times> string) list"
  data :: payload

text \<open>
  The network answers a call with the \<^verbatim>\<open>data\<close> of a response, or axios rejects (transport
  failure, status outside 2xx). The answer may depend on every call made before.
\<close>

type_synonym net = "http_request list \<Rightarrow> http_request \<Rightarrow> jsval promise"

text \<open>The inbound request: \<^verbatim>\<open>request.body\<close> and \<^verbatim>\<open>request.headers\<close>.\<close>

record request =
  request_body :: jsval
  request_headers :: "string \<rightharpoonup> string"

text \<open>
  What \<^verbatim>\<open>response.status(n).send(x)\<close> of Express sends: a string as it is, an object
  as its JSON text (\<^verbatim>\<open>send\<close> hands an object to \<^verbatim>\<open>response.json\<close>). Every error that
  the handler catches is an object (a \<^verbatim>\<open>TypeError\<close> of the engine or an error of axios);
  as for the Slack message, \<^verbatim>\<open>JSON.stringify\<close> is kept symbolic.
\<close>

datatype sent =
    Text string
  | JSON_of_error js_error

text \<open>A response, or an exception that leaves the handler.\<close>

datatype outcome =
    Responded nat sent
  | Uncaught js_error

text \<open>
  The module-level variables of line 31 (\<^verbatim>\<open>undefined\<close> until assigned; the three that are
  only ever assigned a string or a message are typed so, \<open>None\<close> for \<^verbatim>\<open>undefined\<close>),
  the outbound calls made so far and the lines written by \<^verbatim>\<open>console.log\<close>.
  \<open>type_m\<close> and \<open>id_m\<close> are the module-level \<^verbatim>\<open>type\<close> and \<^verbatim>\<open>id\<close>.
\<close>

record state =
  body :: jsval
  type_m :: jsval
  id_m :: jsval
  cmaURL :: "string option"
  contentfulDeeplinkURL :: "string option"
  slackMessageTemplate :: "message option"
  calls :: "http_request list"
  console :: "(string \<times> js_error) list"

definition init :: state where
  "init = \<lparr>body = JUndef, type_m = JUndef, id_m = JUndef, cmaURL = None,
           contentfulDeeplinkURL = None, slackMessageTemplate = None,
           calls = [], console = []\<rparr>"

definition typeUrlMap :: "(string \<times> string) list" where
  "typeUrlMap =
     [(''Entry'', ''entries''), (''Asset'', ''assets''), (''ContentType'', ''content_types'')]"

text \<open>
  \<^verbatim>\<open>typeUrlMap[t]\<close>: the key is \<^verbatim>\<open>ToString(t)\<close>, which can throw. The result is
  the text that the value prints as (a fragment, or what the object literal inherits under
  that key), \<open>None\<close> when the value is \<^verbatim>\<open>undefined\<close>.
\<close>

definition typeUrlMap_at :: "env \<Rightarrow> jsval \<Rightarrow> js_error + string option" where
  "typeUrlMap_at env t =
     (case ToString t of
        Inl e \<Rightarrow> Inl e
      | Inr key \<Rightarrow>
          Inr (case map_of typeUrlMap key of
                 Some f \<Rightarrow> Some f
               | None \<Rightarrow> Inherited env key))"

section \<open>The three steps\<close>

text \<open>
  \<^verbatim>\<open>axios(rq)\<close>: the call is recorded and the promise settles as the network answers.
\<close>

definition axios :: "net \<Rightarrow> http_request \<Rightarrow> state \<Rightarrow> jsval promise \<times> state" where
  "axios net rq st = (net (calls st) rq, st\<lparr>calls := calls st @ [rq]\<rparr>)"

text \<open>
  A step, called directly or as the callback of \<^verbatim>\<open>then\<close>, either throws (\<open>Inl\<close>) or
  returns a promise. \<^verbatim>\<open>p.then(f)\<close> skips \<open>f\<close> when \<open>p\<close> is rejected, and turns an
  exception thrown by \<open>f\<close> into a rejection.
\<close>

type_synonym 'a step = "state \<Rightarrow> (js_error + 'a promise) \<times> state"

definition then_p :: "'a promise \<times> state \<Rightarrow> ('a \<Rightarrow> 'b step) \<Rightarrow> 'b promise \<times> state" where
  "then_p ps f =
     (case ps of
        (Rejected e, st) \<Rightarrow> (Rejected e, st)
      | (Fulfilled v, st) \<Rightarrow>
          (case f v st of
             (Inl e, st') \<Rightarrow> (Rejected e, st')
           | (Inr q, st') \<Rightarrow> (q, st')))"

definition authorization :: "env \<Rightarrow> (string \<times> string) list" where
  "authorization env = [(''Authorization'', ''Bearer '' @ var_text (cmaToken env))]"

text \<open>
  Line 114, \<^verbatim>\<open>cmaURL + typeUrlMap[type] + '/' + id\<close>, over the module-level \<^verbatim>\<open>type\<close> and
  \<^verbatim>\<open>id\<close>. The key and \<^verbatim>\<open>id\<close> are converted to strings, which can throw. With
  \<^verbatim>\<open>cmaURL\<close> unassigned the first \<^verbatim>\<open>+\<close> has no string operand when
  \<^verbatim>\<open>typeUrlMap[type]\<close> is \<^verbatim>\<open>undefined\<close> too, and adds two \<^verbatim>\<open>undefined\<close> to
  \<^verbatim>\<open>NaN\<close>.
\<close>

definition entity_url :: "env \<Rightarrow> state \<Rightarrow> js_error + string" where
  "entity_url env st =
     (case typeUrlMap_at env (type_m st) of
        Inl e \<Rightarrow> Inl e
      | Inr fragment \<Rightarrow>
          (case ToString (id_m st) of
             Inl e \<Rightarrow> Inl e
           | Inr i \<Rightarrow>
               Inr ((case cmaURL st of
                       Some u \<Rightarrow> u @ var_text fragment
                     | None \<Rightarrow>
                         (case fragment of
                            Some f \<Rightarrow> ''undefined'' @ f
                          | None \<Rightarrow> ''NaN''))
                    @ ''/'' @ i)))"

definition entity_request :: "env \<Rightarrow> string \<Rightarrow> http_request" where
  "entity_request env u =
     \<lparr>url = JStr u, http_method = ''GET'', headers = authorization env, data = NoData\<rparr>"

text \<open>
  Lines 106 to 123. The argument of \<^verbatim>\<open>axios\<close> is evaluated in the call of
  \<^verbatim>\<open>getUserId\<close> itself, so an exception of line 114 is thrown by \<^verbatim>\<open>getUserId\<close>.
\<close>

definition getUserId :: "env \<Rightarrow> net \<Rightarrow> jsval step" where
  "getUserId env net st =
     (case get_path (body st) [''sys'', ''updatedBy''] of
        Inl e \<Rightarrow> (Inl e, st)
      | Inr updatedBy \<Rightarrow>
          if updatedBy \<noteq> JUndef then
            (case get_path updatedBy [''sys'', ''id''] of
               Inl e \<Rightarrow> (Inl e, st)
             | Inr v \<Rightarrow> (Inr (Fulfilled v), st))
          else
            (case entity_url env st of
               Inl e \<Rightarrow> (Inl e, st)
             | Inr u \<Rightarrow>
                 (case axios net (entity_request env u) st of
                    (Rejected e, st') \<Rightarrow> (Inr (Rejected e), st')
                  | (Fulfilled d, st') \<Rightarrow>
                      (case get_path d [''sys'', ''updatedBy'', ''sys'', ''id''] of
                         Inl e \<Rightarrow> (Inr (Rejected e), st')
                       | Inr v \<Rightarrow> (Inr (Fulfilled v), st')))))"

text \<open>
  Lines 140 to 142, \<^verbatim>\<open>items.filter(user => user.sys.id == userId)\<close>: the callback runs
  on every element in order; it throws on an element without \<^verbatim>\<open>sys\<close>, and where the
  comparison throws.
\<close>

fun filter_users :: "env \<Rightarrow> jsval \<Rightarrow> jsval list \<Rightarrow> js_error + jsval list" where
  "filter_users env userId [] = Inr []"
| "filter_users env userId (user # rest) =
     (case get_path user [''sys'', ''id''] of
        Inl e \<Rightarrow> Inl e
      | Inr i \<Rightarrow>
          (case loose_eq env i userId of
             Inl e \<Rightarrow> Inl e
           | Inr keep \<Rightarrow>
               (case filter_users env userId rest of
                  Inl e \<Rightarrow> Inl e
                | Inr users \<Rightarrow> Inr (if keep then user # users else users))))"

text \<open>
  Line 143, \<^verbatim>\<open>users[0].firstName + ' ' + users[0].lastName\<close>: \<^verbatim>\<open>users[0]\<close> of an empty
  array is \<^verbatim>\<open>undefined\<close>, and reading its \<^verbatim>\<open>firstName\<close> throws. With the string
  \<^verbatim>\<open>' '\<close> as an operand, \<^verbatim>\<open>+\<close> converts each name to a string, which can throw.
\<close>

definition display_name :: "jsval list \<Rightarrow> js_error + jsval" where
  "display_name users =
     (case users of
        [] \<Rightarrow> Inl TypeError
      | u # _ \<Rightarrow>
          (case get u ''firstName'' of
             Inl e \<Rightarrow> Inl e
           | Inr f \<Rightarrow>
               (case ToString f of
                  Inl e \<Rightarrow> Inl e
                | Inr first_text \<Rightarrow>
                    (case get u ''lastName'' of
                       Inl e \<Rightarrow> Inl e
                     | Inr l \<Rightarrow>
                         (case ToString l of
                            Inl e \<Rightarrow> Inl e
                          | Inr last_text \<Rightarrow> Inr (JStr (first_text @ '' '' @ last_text)))))))"

text \<open>
  The callback of lines 139 to 146 on \<^verbatim>\<open>response.data\<close>. Only an array has
  \<^verbatim>\<open>filter\<close>: on anything else the call throws a \<^verbatim>\<open>TypeError\<close>.
\<close>

definition pick_user_name :: "env \<Rightarrow> jsval \<Rightarrow> jsval \<Rightarrow> js_error + jsval" where
  "pick_user_name env userId d =
     (case get d ''items'' of
        Inl e \<Rightarrow> Inl e
      | Inr (JArr items) \<Rightarrow>
          (case filter_users env userId items of
             Inl e \<Rightarrow> Inl e
           | Inr users \<Rightarrow> display_name users)
      | Inr _ \<Rightarrow> Inl TypeError)"

definition users_request :: "env \<Rightarrow> state \<Rightarrow> http_request" where
  "users_request env st =
     \<lparr>url = JStr (var_text (cmaURL st) @ ''users/''), http_method = ''GET'',
      headers = authorization env, data = NoData\<rparr>"

text \<open>
  Lines 139 to 148, \<^verbatim>\<open>.then(response => ...).catch(error => { throw error })\<close> on the
  promise of axios, once it has settled.
\<close>

definition users_then :: "env \<Rightarrow> jsval \<Rightarrow> jsval promise \<Rightarrow> jsval promise" where
  "users_then env userId p =
     (case p of
        Rejected e \<Rightarrow> Rejected e
      | Fulfilled d \<Rightarrow>
          (case pick_user_name env userId d of
             Inl e \<Rightarrow> Rejected e
           | Inr userName \<Rightarrow> Fulfilled userName))"

text \<open>Lines 131 to 149.\<close>

definition getUserName :: "env \<Rightarrow> net \<Rightarrow> jsval \<Rightarrow> jsval step" where
  "getUserName env net userId st =
     (case axios net (users_request env st) st of
        (p, st') \<Rightarrow> (Inr (users_then env userId p), st'))"

text \<open>Line 160; each substitution is converted to a string, in order.\<close>

definition message_text :: "jsval \<Rightarrow> string option \<Rightarrow> jsval \<Rightarrow> js_error + string" where
  "message_text userName deeplink ty =
     (case ToString userName of
        Inl e \<Rightarrow> Inl e
      | Inr name \<Rightarrow>
          (case ToString ty of
             Inl e \<Rightarrow> Inl e
           | Inr t \<Rightarrow>
               Inr (''An Entry has just been changed by '' @ name
                    @ ''. The full Entry is below in the fields. Here is the link to the entry: <''
                    @ var_text deeplink @ ''|Link to '' @ t @ ''>'')))"

text \<open>
  One round of the loop of lines 163 to 169: the first attachment of the template is
  reached, the argument \<^verbatim>\<open>body.fields[key]['en-US']\<close> is read, and the field is pushed.
\<close>

definition push_field :: "string \<Rightarrow> state \<Rightarrow> (js_error + unit) \<times> state" where
  "push_field key st =
     (case slackMessageTemplate st of
        None \<Rightarrow> (Inl TypeError, st)
      | Some m \<Rightarrow>
          (case attachments m of
             [] \<Rightarrow> (Inl TypeError, st)
           | a # as \<Rightarrow>
               (case get_path (body st) [''fields'', key, ''en-US''] of
                  Inl e \<Rightarrow> (Inl e, st)
                | Inr v \<Rightarrow>
                    (Inr (),
                     st\<lparr>slackMessageTemplate :=
                          Some (m\<lparr>attachments :=
                            a\<lparr>fields_a := fields_a a
                                 @ [\<lparr>title = ''field.'' @ key, value_field = v, short = False\<rparr>]\<rparr>
                            # as\<rparr>)\<rparr>))))"

fun append_fields :: "string list \<Rightarrow> state \<Rightarrow> (js_error + unit) \<times> state" where
  "append_fields [] st = (Inr (), st)"
| "append_fields (key # keys) st =
     (case push_field key st of
        (Inl e, st') \<Rightarrow> (Inl e, st')
      | (Inr _, st') \<Rightarrow> append_fields keys st')"

text \<open>Lines 171 and 172.\<close>

definition set_texts :: "string \<Rightarrow> state \<Rightarrow> (js_error + message) \<times> state" where
  "set_texts msg st =
     (case slackMessageTemplate st of
        None \<Rightarrow> (Inl TypeError, st)
      | Some m \<Rightarrow>
          (case attachments m of
             [] \<Rightarrow> (Inl TypeError, st)
           | a # as \<Rightarrow>
               (let m' = m\<lparr>attachments := a\<lparr>fallback := msg, pretext := msg\<rparr> # as\<rparr>
                in (Inr m', st\<lparr>slackMessageTemplate := Some m'\<rparr>))))"

definition slack_request :: "env \<Rightarrow> message \<Rightarrow> http_request" where
  "slack_request env m =
     \<lparr>url = env_value (slackURL env), http_method = ''POST'', headers = [],
      data = JSON_stringify m\<rparr>"

text \<open>Lines 157 to 179.\<close>

definition postToSlack :: "env \<Rightarrow> net \<Rightarrow> jsval \<Rightarrow> jsval step" where
  "postToSlack env net userName st =
     (case get_path (body st) [''sys'', ''type''] of
        Inl e \<Rightarrow> (Inl e, st)
      | Inr ty \<Rightarrow>
          (case message_text userName (contentfulDeeplinkURL st) ty of
             Inl e \<Rightarrow> (Inl e, st)
           | Inr msg \<Rightarrow>
               (case get (body st) ''fields'' of
                  Inl e \<Rightarrow> (Inl e, st)
                | Inr fs \<Rightarrow>
                    (case append_fields (forin_keys fs) st of
                       (Inl e, st1) \<Rightarrow> (Inl e, st1)
                     | (Inr _, st1) \<Rightarrow>
                         (case set_texts msg st1 of
                            (Inl e, st2) \<Rightarrow> (Inl e, st2)
                          | (Inr m, st2) \<Rightarrow>
                              (case axios net (slack_request env m) st2 of
                                 (p, st3) \<Rightarrow> (Inr p, st3)))))))"

section \<open>The handler\<close>

text \<open>Lines 46 to 49: \<^verbatim>\<open>id\<close>, \<^verbatim>\<open>spaceId\<close> and \<^verbatim>\<open>type\<close>, constants of the handler.\<close>

definition extract_ids :: "jsval \<Rightarrow> js_error + (jsval \<times> jsval \<times> jsval)" where
  "extract_ids b =
     (case get_path b [''sys'', ''id''] of
        Inl e \<Rightarrow> Inl e
      | Inr i \<Rightarrow>
          (case get_path b [''sys'', ''space'', ''sys'', ''id''] of
             Inl e \<Rightarrow> Inl e
           | Inr spaceId \<Rightarrow>
               (case get_path b [''sys'', ''type''] of
                  Inl e \<Rightarrow> Inl e
                | Inr ty \<Rightarrow> Inr (i, spaceId, ty))))"

text \<open>\<^verbatim>\<open>request.headers[name]\<close>: a string, \<open>None\<close> for \<^verbatim>\<open>undefined\<close>.\<close>

definition header :: "request \<Rightarrow> string \<Rightarrow> string option" where
  "header req name = request_headers req name"

text \<open>Lines 66 to 81.\<close>

definition template :: "string option \<Rightarrow> string option \<Rightarrow> message" where
  "template webhook_name webhook_topic =
     \<lparr>username = ''Webhook: '' @ var_text webhook_name,
      icon_emoji = '':contentful:'',
      attachments =
        [\<lparr>fallback = [], pretext = [], color = ''#000000'',
          fields_a =
            [\<lparr>title = ''Action applied to Entry'', value_field = env_value webhook_topic,
              short = False\<rparr>]\<rparr>]\<rparr>"

text \<open>
  Lines 60 to 81, the assignments to the module-level variables; \<open>i\<close> and \<open>ty\<close> are the
  handler's own \<^verbatim>\<open>id\<close> and \<^verbatim>\<open>type\<close>, which the module-level ones never receive. The
  template literals of lines 60 and 62 convert \<^verbatim>\<open>spaceId\<close>, \<^verbatim>\<open>type\<close> (as a key) and
  \<^verbatim>\<open>id\<close> to strings: where that throws, the variables assigned before keep their new
  values and the others their old ones.
\<close>

definition prepare ::
  "env \<Rightarrow> request \<Rightarrow> jsval \<Rightarrow> jsval \<Rightarrow> jsval \<Rightarrow> state \<Rightarrow> (js_error + unit) \<times> state" where
  "prepare env req i spaceId ty st =
     (case ToString spaceId of
        Inl e \<Rightarrow> (Inl e, st)
      | Inr space \<Rightarrow>
          (let st1 = st\<lparr>cmaURL := Some (''https://api.contentful.com/spaces/'' @ space @ ''/'')\<rparr>
           in case typeUrlMap_at env ty of
                Inl e \<Rightarrow> (Inl e, st1)
              | Inr fragment \<Rightarrow>
                  (case ToString i of
                     Inl e \<Rightarrow> (Inl e, st1)
                   | Inr entity \<Rightarrow>
                       (Inr (),
                        st1\<lparr>contentfulDeeplinkURL :=
                              Some (''https://app.contentful.com/spaces/'' @ space @ ''/''
                                    @ var_text fragment @ ''/'' @ entity),
                            slackMessageTemplate :=
                              Some (template (header req ''x-contentful-webhook-name'')
                                             (header req ''x-contentful-topic''))\<rparr>))))"

text \<open>Lines 93 to 96.\<close>

definition fail :: "js_error \<Rightarrow> state \<Rightarrow> outcome \<times> state" where
  "fail error st =
     (Responded 500 (JSON_of_error error),
      st\<lparr>console := console st @ [(''error'', error)]\<rparr>)"

text \<open>Lines 88 to 96: the chain, from the promise that \<^verbatim>\<open>getUserId\<close> returned.\<close>

definition respond :: "jsval promise \<times> state \<Rightarrow> outcome \<times> state" where
  "respond ps =
     (case ps of
        (Fulfilled _, st) \<Rightarrow> (Responded 200 (Text ''Slack post successful!''), st)
      | (Rejected error, st) \<Rightarrow> fail error st)"

text \<open>
  Lines 40 to 97, with every callback run as soon as its promise settles and no other
  request handled in between. An exception thrown by the field extraction, by the comparison
  of line 54, by a template literal of lines 60 and 62 or by the direct call of
  \<^verbatim>\<open>getUserId\<close> is outside the promise chain, and leaves the handler.
\<close>

definition handle :: "env \<Rightarrow> net \<Rightarrow> request \<Rightarrow> state \<Rightarrow> outcome \<times> state" where
  "handle env net req st0 =
     (let st = st0\<lparr>body := request_body req\<rparr> in
      case extract_ids (body st) of
        Inl e \<Rightarrow> (Uncaught e, st)
      | Inr (i, spaceId, ty) \<Rightarrow>
          (case loose_eq env ty (JStr ''Entry'') of
             Inl e \<Rightarrow> (Uncaught e, st)
           | Inr equal \<Rightarrow>
               if \<not> equal then
                 (Responded 200 (Text ''I am only posting entries to slack!''), st)
               else
                 (case prepare env req i spaceId ty st of
                    (Inl e, st') \<Rightarrow> (Uncaught e, st')
                  | (Inr _, st') \<Rightarrow>
                      (case getUserId env net st' of
                         (Inl e, st1) \<Rightarrow> (Uncaught e, st1)
                       | (Inr p, st1) \<Rightarrow>
                           respond (then_p (then_p (p, st1) (getUserName env net))
                                           (postToSlack env net))))))"

text \<open>Requests handled one after the other, each to completion.\<close>

fun serve :: "env \<Rightarrow> net \<Rightarrow> request list \<Rightarrow> state \<Rightarrow> outcome list \<times> state" where
  "serve env net [] st = ([], st)"
| "serve env net (req # reqs) st =
     (case handle env net req st of
        (out, st') \<Rightarrow> (case serve env net reqs st' of (outs, st'') \<Rightarrow> (out # outs, st'')))"

text \<open>
  A second schedule of the same code. The handler of \<open>req\<close> returns at line 96 with its chain
  pending; the users lookup is issued (line 133) and, while its response is awaited, the
  request \<open>other\<close> arrives and is handled. Then the response arrives and the chain of \<open>req\<close>
  goes on: the callback of lines 139 to 146, then \<^verbatim>\<open>postToSlack\<close>. The handling of
  \<open>other\<close> is \<open>handle\<close>, which is the whole of it when \<open>other\<close> is answered by the type filter
  or throws (it then has no chain of its own). The result is the response to \<open>req\<close>.
\<close>

definition handle_overtaken ::
  "env \<Rightarrow> net \<Rightarrow> request \<Rightarrow> request \<Rightarrow> state \<Rightarrow> outcome \<times> state" where
  "handle_overtaken env net req other st0 =
     (let st = st0\<lparr>body := request_body req\<rparr> in
      case extract_ids (body st) of
        Inl e \<Rightarrow> (Uncaught e, st)
      | Inr (i, spaceId, ty) \<Rightarrow>
          (case loose_eq env ty (JStr ''Entry'') of
             Inl e \<Rightarrow> (Uncaught e, st)
           | Inr equal \<Rightarrow>
               if \<not> equal then
                 (Responded 200 (Text ''I am only posting entries to slack!''), st)
               else
                 (case prepare env req i spaceId ty st of
                    (Inl e, st') \<Rightarrow> (Uncaught e, st')
                  | (Inr _, st') \<Rightarrow>
                      (case getUserId env net st' of
                         (Inl e, st1) \<Rightarrow> (Uncaught e, st1)
                       | (Inr (Rejected e), st1) \<Rightarrow> fail e st1
                       | (Inr (Fulfilled userId), st1) \<Rightarrow>
                           (case axios net (users_request env st1) st1 of
                              (p, st2) \<Rightarrow>
                                (case handle env net other st2 of
                                   (_, st3) \<Rightarrow>
                                     respond (then_p (users_then env userId p, st3)
                                                     (postToSlack env net))))))))"

section \<open>Notions used to state the properties\<close>

text \<open>
  Reading a property without throwing, as \<^verbatim>\<open>v?.k\<close> does: \<^verbatim>\<open>undefined\<close> where
  \<^verbatim>\<open>v.k\<close> throws.
\<close>

definition peek :: "jsval \<Rightarrow> string \<Rightarrow> jsval" where
  "peek v k = (case get v k of Inl _ \<Rightarrow> JUndef | Inr x \<Rightarrow> x)"

fun path :: "jsval \<Rightarrow> string list \<Rightarrow> jsval" where
  "path v [] = v"
| "path v (k # ks) = path (peek v k) ks"

text \<open>
  A container on the way to the three values of lines 46 to 49 is missing: \<^verbatim>\<open>body\<close>,
  \<^verbatim>\<open>body.sys\<close>, \<^verbatim>\<open>body.sys.space\<close> or \<^verbatim>\<open>body.sys.space.sys\<close> is \<^verbatim>\<open>undefined\<close> or
  \<^verbatim>\<open>null\<close>.
\<close>

definition absent_parent :: "jsval \<Rightarrow> bool" where
  "absent_parent b \<longleftrightarrow>
     nullish b \<or> nullish (path b [''sys'']) \<or> nullish (path b [''sys'', ''space''])
     \<or> nullish (path b [''sys'', ''space'', ''sys''])"

text \<open>
  An element of a users collection on which \<^verbatim>\<open>user.sys.id == userId\<close> has a value, and
  one on which it is true: the id of the user equals the resolved id, as \<^verbatim>\<open>==\<close> compares
  them.
\<close>

definition comparable :: "env \<Rightarrow> jsval \<Rightarrow> jsval \<Rightarrow> bool" where
  "comparable env userId user \<longleftrightarrow>
     (case get_path user [''sys'', ''id''] of
        Inl _ \<Rightarrow> False
      | Inr i \<Rightarrow> (case loose_eq env i userId of Inl _ \<Rightarrow> False | Inr _ \<Rightarrow> True))"

definition id_matches :: "env \<Rightarrow> jsval \<Rightarrow> jsval \<Rightarrow> bool" where
  "id_matches env userId user \<longleftrightarrow>
     (case get_path user [''sys'', ''id''] of
        Inl _ \<Rightarrow> False
      | Inr i \<Rightarrow> (case loose_eq env i userId of Inl _ \<Rightarrow> False | Inr equal \<Rightarrow> equal))"

fun elements :: "jsval \<Rightarrow> jsval list" where
  "elements (JArr xs) = xs"
| "elements _ = []"

text \<open>The field that the loop of lines 163 to 169 pushes for a key.\<close>

definition field_of :: "jsval \<Rightarrow> string \<Rightarrow> field" where
  "field_of b key =
     \<lparr>title = ''field.'' @ key, value_field = path b [''fields'', key, ''en-US''],
      short = False\<rparr>"

text \<open>
  The text of line 160 for an Entry, as the specification words it, from the display name,
  the space id and the entity id as strings.
\<close>

definition entry_text :: "string \<Rightarrow> string \<Rightarrow> string \<Rightarrow> string" where
  "entry_text displayName spaceId entityId =
     ''An Entry has just been changed by '' @ displayName
     @ ''. The full Entry is below in the fields. Here is the link to the entry: <''
     @ ''https://app.contentful.com/spaces/'' @ spaceId @ ''/entries/''
     @ entityId @ ''|Link to Entry>''"

text \<open>
  What a call carries: for each attachment of the posted message its \<^verbatim>\<open>pretext\<close> and
  \<^verbatim>\<open>fallback\<close>, and the fields of the attachments.
\<close>

definition posted_texts :: "http_request \<Rightarrow> (string \<times> string) list" where
  "posted_texts rq =
     (case data rq of
        NoData \<Rightarrow> []
      | JSON_stringify m \<Rightarrow> map (\<lambda>a. (pretext a, fallback a)) (attachments m))"

definition posted_fields :: "http_request \<Rightarrow> field list" where
  "posted_fields rq =
     (case data rq of
        NoData \<Rightarrow> []
      | JSON_stringify m \<Rightarrow> concat (map fields_a (attachments m)))"

text \<open>A response whose body is a string handed to \<^verbatim>\<open>send\<close>.\<close>

fun is_text :: "outcome \<Rightarrow> bool" where
  "is_text (Responded _ (Text _)) = True"
| "is_text _ = False"

text \<open>
  The Slack messages delivered among the calls \<open>new\<close> made after the calls \<open>old\<close>: the
  \<^verbatim>\<open>POST\<close> calls that the network fulfilled.
\<close>

fun delivered :: "net \<Rightarrow> http_request list \<Rightarrow> http_request list \<Rightarrow> nat" where
  "delivered net old [] = 0"
| "delivered net old (rq # new) =
     (if http_method rq = ''POST'' \<and> (case net old rq of Fulfilled _ \<Rightarrow> True | Rejected _ \<Rightarrow> False)
      then 1 else 0)
     + delivered net (old @ [rq]) new"

text \<open>A process just started, with the calls and the console of \<open>st\<close>.\<close>

definition fresh :: "state \<Rightarrow> state" where
  "fresh st = init\<lparr>type_m := type_m st, id_m := id_m st, calls := calls st, console := console st\<rparr>"

section \<open>Example data\<close>

text \<open>
  An environment with both settings, and what the engine prints for the values that an
  object literal inherits. No example compares a number with a string.
\<close>

definition env_ex :: env where
  "env_ex =
     \<lparr>slackURL = Some ''https://hooks.slack.example/T0'', cmaToken = Some ''token'',
      StringToNumber = (\<lambda>s. None),
      Inherited = map_of
        [(''constructor'', ''function Object() { [native code] }''),
         (''toString'', ''function toString() { [native code] }''),
         (''toLocaleString'', ''function toLocaleString() { [native code] }''),
         (''valueOf'', ''function valueOf() { [native code] }''),
         (''hasOwnProperty'', ''function hasOwnProperty() { [native code] }''),
         (''isPrototypeOf'', ''function isPrototypeOf() { [native code] }''),
         (''propertyIsEnumerable'', ''function propertyIsEnumerable() { [native code] }''),
         (''__defineGetter__'', ''function __defineGetter__() { [native code] }''),
         (''__defineSetter__'', ''function __defineSetter__() { [native code] }''),
         (''__lookupGetter__'', ''function __lookupGetter__() { [native code] }''),
         (''__lookupSetter__'', ''function __lookupSetter__() { [native code] }''),
         (''__proto__'', ''[object Object]'')]\<rparr>"

definition sys_of :: "string \<Rightarrow> jsval" where
  "sys_of i = JObj [(''sys'', JObj [(''id'', JStr i)])]"

definition ada :: jsval where
  "ada = JObj [(''sys'', JObj [(''id'', JStr ''U1'')]), (''firstName'', JStr ''Ada''),
               (''lastName'', JStr ''Lovelace'')]"

definition grace :: jsval where
  "grace = JObj [(''sys'', JObj [(''id'', JStr ''U2'')]), (''firstName'', JStr ''Grace''),
                 (''lastName'', JStr ''Hopper'')]"

text \<open>A second user under the id \<^verbatim>\<open>U1\<close>, and an element without \<^verbatim>\<open>sys\<close>.\<close>

definition charles :: jsval where
  "charles = JObj [(''sys'', JObj [(''id'', JStr ''U1'')]), (''firstName'', JStr ''Charles''),
                   (''lastName'', JStr ''Babbage'')]"

definition nameless :: jsval where
  "nameless = JObj [(''firstName'', JStr ''Nobody'')]"

text \<open>A network where the management API lists the users and Slack accepts the message.\<close>

definition net_up :: "jsval list \<Rightarrow> net" where
  "net_up users old rq =
     (if http_method rq = ''POST'' then Fulfilled (JStr ''ok'')
      else if url rq = JStr ''https://api.contentful.com/spaces/sp/users/''
      then Fulfilled (JObj [(''items'', JArr users)])
      else Rejected (AxiosError ''Request failed with status code 404''))"

text \<open>A network where every call fails.\<close>

definition net_down :: net where
  "net_down old rq = Rejected (AxiosError ''Network Error'')"

definition headers_ex :: "string \<rightharpoonup> string" where
  "headers_ex =
     [''x-contentful-webhook-name'' \<mapsto> ''hook'', ''x-contentful-topic'' \<mapsto> ''entry.save'']"

definition request_of :: "jsval \<Rightarrow> request" where
  "request_of b = \<lparr>request_body = b, request_headers = headers_ex\<rparr>"

text \<open>An entry saved through the management API: the body names the user.\<close>

definition body_saved :: jsval where
  "body_saved =
     JObj [(''sys'', JObj [(''id'', JStr ''e1''), (''type'', JStr ''Entry''),
                           (''space'', sys_of ''sp''), (''updatedBy'', sys_of ''U1'')]),
           (''fields'', JObj [(''title'', JObj [(''en-US'', JStr ''Hello'')]),
                              (''body'', JObj [(''en-US'', JStr ''World'')])])]"

text \<open>An entry published: the body does not name the user.\<close>

definition body_published :: jsval where
  "body_published =
     JObj [(''sys'', JObj [(''id'', JStr ''e1''), (''type'', JStr ''Entry''),
                           (''space'', sys_of ''sp'')]),
           (''fields'', JObj [(''title'', JObj [(''en-US'', JStr ''Hello'')])])]"

text \<open>A complete asset, and an asset whose body has no \<^verbatim>\<open>sys.space\<close>.\<close>

definition body_asset :: jsval where
  "body_asset =
     JObj [(''sys'', JObj [(''id'', JStr ''a1''), (''type'', JStr ''Asset''),
                           (''space'', sys_of ''sp'')])]"

definition body_no_space :: jsval where
  "body_no_space = JObj [(''sys'', JObj [(''id'', JStr ''a1''), (''type'', JStr ''Asset'')])]"

text \<open>
  A body with \<^verbatim>\<open>sys.space.sys\<close> and none of \<^verbatim>\<open>sys.id\<close>, \<^verbatim>\<open>sys.space.sys.id\<close>
  and \<^verbatim>\<open>sys.type\<close>.
\<close>

definition body_leafless :: jsval where
  "body_leafless = JObj [(''sys'', JObj [(''space'', JObj [(''sys'', JObj [])])])]"

text \<open>
  An entry whose \<^verbatim>\<open>sys.type\<close> is the array \<^verbatim>\<open>["Entry"]\<close>, and an asset whose
  \<^verbatim>\<open>sys.type\<close> is the object \<^verbatim>\<open>{"toString":1}\<close>.
\<close>

definition body_array_type :: jsval where
  "body_array_type =
     JObj [(''sys'', JObj [(''id'', JStr ''e1''), (''type'', JArr [JStr ''Entry'']),
                           (''space'', sys_of ''sp''), (''updatedBy'', sys_of ''U1'')])]"

definition body_object_type :: jsval where
  "body_object_type =
     JObj [(''sys'', JObj [(''id'', JStr ''a1''), (''type'', JObj [(''toString'', JNum ''1'')]),
                           (''space'', sys_of ''sp'')])]"

text \<open>An asset with a field, which arrives while the saved entry waits for its users.\<close>

definition body_overtaking :: jsval where
  "body_overtaking =
     JObj [(''sys'', JObj [(''id'', JStr ''a2''), (''type'', JStr ''Asset''),
                           (''space'', sys_of ''sp2'')]),
           (''fields'', JObj [(''file'', JObj [(''en-US'', JStr ''logo.png'')])])]"

text \<open>
  The module-level variables as the handler leaves them for the saved and for the published
  entry, on a process just started, and the state of the saved entry after the user lookup.
\<close>

definition st_saved :: state where
  "st_saved =
     snd (prepare env_ex (request_of body_saved) (JStr ''e1'') (JStr ''sp'') (JStr ''Entry'')
            (init\<lparr>body := body_saved\<rparr>))"

definition st_named :: state where
  "st_named = st_saved\<lparr>calls := [users_request env_ex st_saved]\<rparr>"

definition st_published :: state where
  "st_published =
     snd (prepare env_ex (request_of body_published) (JStr ''e1'') (JStr ''sp'') (JStr ''Entry'')
            (init\<lparr>body := body_published\<rparr>))"

section \<open>Auxiliary facts\<close>

lemma get_error: "get v k = Inl e \<Longrightarrow> e = TypeError"
  by (auto simp: get_def split: if_splits)

lemma get_path_error: "get_path v ks = Inl e \<Longrightarrow> e = TypeError"
  by (induction ks arbitrary: v) (auto split: sum.splits dest: get_error)

lemma all_right_error: "all_right rs = Inl e \<Longrightarrow> Inl e \<in> set rs"
  by (induction rs rule: all_right.induct) (auto split: sum.splits)

lemma ToString_error: "ToString v = Inl e \<Longrightarrow> e = TypeError"
proof (induction v rule: ToString.induct)
  case (6 xs)
  from "6.prems" have "all_right (map (\<lambda>x. if nullish x then Inr [] else ToString x) xs) = Inl e"
    by (simp split: sum.splits)
  then have "Inl e \<in> set (map (\<lambda>x. if nullish x then Inr [] else ToString x) xs)"
    by (rule all_right_error)
  then obtain x where "x \<in> set xs" "\<not> nullish x" "ToString x = Inl e"
    by (auto split: if_splits)
  then show ?case
    using "6.IH" by blast
qed (auto split: option.splits)

lemma ToPrimitive_error: "ToPrimitive v = Inl e \<Longrightarrow> e = TypeError"
  by (auto simp: ToPrimitive_def split: if_splits sum.splits dest: ToString_error)

lemma loose_eq_error: "loose_eq env x y = Inl e \<Longrightarrow> e = TypeError"
  by (auto simp: loose_eq_def split: if_splits sum.splits dest: ToPrimitive_error)

lemma ToNumber_Entry: "ToNumber env (JStr ''Entry'') = None"
  by (simp add: ToNumber_string_def non_numeric_letters_def)

text \<open>
  What \<^verbatim>\<open>type != 'Entry'\<close> does: an object or array is printed, which can throw, and the
  texts are compared; any other value equals the string only when it is that string.
\<close>

lemma loose_eq_Entry:
  "loose_eq env ty (JStr ''Entry'') =
     (if is_object ty
      then (case ToString ty of Inl e \<Rightarrow> Inl e | Inr s \<Rightarrow> Inr (s = ''Entry''))
      else Inr (ty = JStr ''Entry''))"
proof (cases "is_object ty")
  case True
  then have "\<not> nullish ty"
    by (cases ty) simp_all
  then show ?thesis
    using True by (simp add: loose_eq_def ToPrimitive_def primitives_eq_def split: sum.splits)
next
  case False
  then show ?thesis
    by (cases ty)
       (auto simp: loose_eq_def ToPrimitive_def primitives_eq_def ToNumber_Entry
             simp del: ToNumber.simps(3) split: option.splits)
qed

lemma Entry_text: "loose_eq env ty (JStr ''Entry'') = Inr True \<Longrightarrow> ToString ty = Inr ''Entry''"
  by (cases "is_object ty") (auto simp: loose_eq_Entry split: sum.splits)

lemma Entry_fragment:
  "loose_eq env ty (JStr ''Entry'') = Inr True \<Longrightarrow> typeUrlMap_at env ty = Inr (Some ''entries'')"
  by (simp add: typeUrlMap_at_def typeUrlMap_def Entry_text)

lemma not_Entry:
  assumes "ToString ty = Inr s" and "s \<noteq> ''Entry''"
  shows "loose_eq env ty (JStr ''Entry'') = Inr False"
  using assms by (cases "is_object ty") (auto simp: loose_eq_Entry)

text \<open>The first two steps change nothing but the list of calls.\<close>

lemma getUserId_state:
  "getUserId env net st = (r, st') \<Longrightarrow>
     st' = st \<or> (\<exists>u. entity_url env st = Inr u
                     \<and> st' = st\<lparr>calls := calls st @ [entity_request env u]\<rparr>)"
  by (auto simp: getUserId_def axios_def split: sum.splits if_splits promise.splits)

lemma getUserName_state:
  "getUserName env net userId st = (r, st') \<Longrightarrow>
     st' = st\<lparr>calls := calls st @ [users_request env st]\<rparr>
     \<and> r = Inr (users_then env userId (net (calls st) (users_request env st)))"
  by (auto simp: getUserName_def axios_def)

lemma get_path_Inr: "get_path v ks = Inr x \<Longrightarrow> x = path v ks"
  by (induction ks arbitrary: v) (auto simp: peek_def split: sum.splits)

lemma get_peek: "\<not> nullish v \<Longrightarrow> get v k = Inr (peek v k)"
  by (simp add: get_def peek_def)

lemma get_nullish: "nullish v \<Longrightarrow> get v k = Inl TypeError"
  by (simp add: get_def)

lemma peek_nullish: "nullish v \<Longrightarrow> peek v k = JUndef"
  by (simp add: get_def peek_def)

lemma peek_get: "peek v k = x \<Longrightarrow> x \<noteq> JUndef \<Longrightarrow> get v k = Inr x"
  by (auto simp: peek_def get_def split: if_splits)

lemma own_props_nullish: "nullish v \<Longrightarrow> own_props v = []"
  by (cases v) simp_all


text \<open>The loop visits each key of an object once, in the order of the object.\<close>

lemma first_bindings_keys: "fst ` set (first_bindings kvs) \<subseteq> fst ` set kvs"
  by (induction kvs rule: first_bindings.induct) auto

lemma distinct_first_bindings: "distinct (map fst (first_bindings kvs))"
proof (induction kvs rule: first_bindings.induct)
  case 1
  then show ?case by simp
next
  case (2 k v kvs)
  have "k \<notin> fst ` set (filter (\<lambda>(k', _). k' \<noteq> k) kvs)"
    by auto
  then have "k \<notin> fst ` set (first_bindings (filter (\<lambda>(k', _). k' \<noteq> k) kvs))"
    using first_bindings_keys by blast
  then show ?case
    using 2 by simp
qed

lemma first_bindings_distinct: "distinct (map fst kvs) \<Longrightarrow> first_bindings kvs = kvs"
proof (induction kvs)
  case Nil
  then show ?case by simp
next
  case (Cons kv kvs)
  obtain k v where kv: "kv = (k, v)"
    by (cases kv)
  have "filter (\<lambda>(k', _). k' \<noteq> k) kvs = kvs"
    using Cons.prems kv by (force simp: filter_id_conv)
  then show ?case
    using Cons kv by simp
qed

lemma forin_keys_object:
  "distinct (forin_keys (JObj kvs))"
  "distinct (map fst kvs) \<Longrightarrow> forin_keys (JObj kvs) = map fst kvs"
  by (simp_all add: forin_keys_def distinct_first_bindings first_bindings_distinct)

text \<open>A key that the loop visits is read without an exception unless its value is null.\<close>

lemma visited_key:
  assumes "k \<in> set (forin_keys (path b [''fields'']))"
  shows "get_path b [''fields'', k, ''en-US''] =
           (if nullish (path b [''fields'', k]) then Inl TypeError
            else Inr (path b [''fields'', k, ''en-US'']))"
proof -
  have fs: "\<not> nullish (peek b ''fields'')"
    using assms by (auto simp: forin_keys_def own_props_nullish)
  then have b: "\<not> nullish b"
    by (auto simp: peek_nullish)
  show ?thesis
    using fs b by (simp add: get_peek get_nullish)
qed

lemma push_field_body: "push_field key st = (r, st') \<Longrightarrow> body st' = body st"
  by (auto simp: push_field_def split: option.splits list.splits sum.splits)

lemma append_fields_ok:
  assumes "slackMessageTemplate st = Some m" and "attachments m = a # as"
    and "list_all (\<lambda>k. get_path (body st) [''fields'', k, ''en-US'']
                        = Inr (path (body st) [''fields'', k, ''en-US''])) keys"
  shows "append_fields keys st =
           (Inr (), st\<lparr>slackMessageTemplate :=
                        Some (m\<lparr>attachments :=
                                 a\<lparr>fields_a := fields_a a @ map (field_of (body st)) keys\<rparr> # as\<rparr>)\<rparr>)"
  using assms
proof (induction keys arbitrary: st m a)
  case Nil
  then show ?case by simp
next
  case (Cons k keys)
  let ?a = "a\<lparr>fields_a := fields_a a @ [field_of (body st) k]\<rparr>"
  let ?m = "m\<lparr>attachments := ?a # as\<rparr>"
  let ?st = "st\<lparr>slackMessageTemplate := Some ?m\<rparr>"
  have step: "push_field k st = (Inr (), ?st)"
    using Cons.prems by (simp add: push_field_def field_of_def)
  have "append_fields keys ?st =
          (Inr (), ?st\<lparr>slackMessageTemplate :=
                        Some (?m\<lparr>attachments :=
                                 ?a\<lparr>fields_a := fields_a ?a @ map (field_of (body ?st)) keys\<rparr> # as\<rparr>)\<rparr>)"
    using Cons.prems by (intro Cons.IH) simp_all
  then show ?case
    using step by simp
qed

lemma append_fields_Inr:
  "append_fields keys st = (Inr u, st') \<Longrightarrow>
     list_all (\<lambda>k. get_path (body st) [''fields'', k, ''en-US'']
                     = Inr (path (body st) [''fields'', k, ''en-US''])) keys"
proof (induction keys arbitrary: st)
  case Nil
  then show ?case by simp
next
  case (Cons k keys)
  from Cons.prems obtain st1 where p: "push_field k st = (Inr (), st1)"
    and r: "append_fields keys st1 = (Inr u, st')"
    by (auto split: prod.splits sum.splits)
  have b: "body st1 = body st"
    using p by (rule push_field_body)
  have "\<exists>v. get_path (body st) [''fields'', k, ''en-US''] = Inr v"
    using p by (auto simp: push_field_def split: option.splits list.splits sum.splits)
  then have "get_path (body st) [''fields'', k, ''en-US''] = Inr (path (body st) [''fields'', k, ''en-US''])"
    using get_path_Inr by blast
  then show ?case
    using Cons.IH [OF r] b by simp
qed

lemma append_fields_calls:
  "append_fields keys st = (r, st') \<Longrightarrow> calls st' = calls st \<and> console st' = console st"
proof (induction keys arbitrary: st)
  case Nil
  then show ?case by simp
next
  case (Cons k keys)
  then show ?case
    by (fastforce simp: push_field_def split: prod.splits sum.splits option.splits list.splits)
qed

lemma postToSlack_ok:
  assumes "slackMessageTemplate st = Some m0" and "attachments m0 = a # as"
    and "get_path (body st) [''sys'', ''type''] = Inr ty"
    and "message_text userName (contentfulDeeplinkURL st) ty = Inr msg"
    and "list_all (\<lambda>k. \<not> nullish (path (body st) [''fields'', k]))
                  (forin_keys (path (body st) [''fields'']))"
    and "m = m0\<lparr>attachments :=
                  a\<lparr>fields_a := fields_a a
                      @ map (field_of (body st)) (forin_keys (path (body st) [''fields''])),
                    fallback := msg, pretext := msg\<rparr> # as\<rparr>"
  shows "postToSlack env net userName st =
           (Inr (net (calls st) (slack_request env m)),
            st\<lparr>slackMessageTemplate := Some m, calls := calls st @ [slack_request env m]\<rparr>)"
proof -
  let ?keys = "forin_keys (path (body st) [''fields''])"
  have b: "\<not> nullish (body st)"
    using assms(3) by (auto simp: get_def split: if_splits)
  have fs: "get (body st) ''fields'' = Inr (path (body st) [''fields''])"
    using b by (simp add: get_peek)
  have "list_all (\<lambda>k. get_path (body st) [''fields'', k, ''en-US'']
                        = Inr (path (body st) [''fields'', k, ''en-US''])) ?keys"
    using assms(5) by (simp add: list_all_iff visited_key del: get_path.simps path.simps)
  then have loop: "append_fields ?keys st =
      (Inr (), st\<lparr>slackMessageTemplate :=
                    Some (m0\<lparr>attachments :=
                      a\<lparr>fields_a := fields_a a @ map (field_of (body st)) ?keys\<rparr> # as\<rparr>)\<rparr>)"
    by (rule append_fields_ok [OF assms(1,2)])
  show ?thesis
    unfolding postToSlack_def
    using assms(3,4) fs loop
    by (simp add: set_texts_def axios_def assms(2,6) Let_def del: get_path.simps path.simps)
qed

lemma postToSlack_Inr:
  assumes "postToSlack env net userName st = (Inr p, st')"
  shows "list_all (\<lambda>k. \<not> nullish (path (body st) [''fields'', k]))
                  (forin_keys (path (body st) [''fields'']))"
    and "\<exists>ty msg. get_path (body st) [''sys'', ''type''] = Inr ty
                  \<and> message_text userName (contentfulDeeplinkURL st) ty = Inr msg"
proof -
  from assms obtain fs u st1 where fs: "get (body st) ''fields'' = Inr fs"
    and loop: "append_fields (forin_keys fs) st = (Inr u, st1)"
    by (auto simp: postToSlack_def Let_def split: sum.splits prod.splits)
  have "fs = path (body st) [''fields'']"
    using fs by (simp add: peek_def)
  then show "list_all (\<lambda>k. \<not> nullish (path (body st) [''fields'', k]))
                  (forin_keys (path (body st) [''fields'']))"
    using append_fields_Inr [OF loop]
    by (auto simp: list_all_iff visited_key simp del: get_path.simps path.simps split: if_splits)
  show "\<exists>ty msg. get_path (body st) [''sys'', ''type''] = Inr ty
                  \<and> message_text userName (contentfulDeeplinkURL st) ty = Inr msg"
    using assms
    by (auto simp: postToSlack_def simp del: get_path.simps split: sum.splits prod.splits)
qed

lemma postToSlack_calls:
  assumes "postToSlack env net userName st = (r, st')"
  shows "console st' = console st \<and>
         (case r of
            Inl e \<Rightarrow> calls st' = calls st
          | Inr p \<Rightarrow> (\<exists>m. calls st' = calls st @ [slack_request env m]
                          \<and> p = net (calls st) (slack_request env m)))"
  using assms
  unfolding postToSlack_def Let_def
  by (auto simp: set_texts_def axios_def Let_def
           split: sum.splits prod.splits option.splits list.splits
           dest!: append_fields_calls)

lemma filter_users_error: "filter_users env userId items = Inl e \<Longrightarrow> e = TypeError"
  by (induction items arbitrary: e)
     (auto simp del: get_path.simps split: sum.splits dest: get_path_error loose_eq_error)

lemma filter_users_Inr:
  "filter_users env userId items = Inr users \<Longrightarrow> users = filter (id_matches env userId) items"
  by (induction items arbitrary: users)
     (auto simp: id_matches_def simp del: get_path.simps split: sum.splits if_splits)

lemma filter_users_ok:
  "list_all (comparable env userId) items \<Longrightarrow>
     filter_users env userId items = Inr (filter (id_matches env userId) items)"
  by (induction items)
     (auto simp: comparable_def id_matches_def simp del: get_path.simps split: sum.splits)

lemma find_filter: "find P xs = Some u \<Longrightarrow> \<exists>ys. filter P xs = u # ys"
  by (induction xs) (auto split: if_splits)

lemma id_matches_not_nullish: "id_matches env userId u \<Longrightarrow> \<not> nullish u"
  by (auto simp: id_matches_def get_def split: sum.splits if_splits)

lemma display_name_first:
  assumes "\<not> nullish u" and "ToString (peek u ''firstName'') = Inr f"
    and "ToString (peek u ''lastName'') = Inr l"
  shows "display_name (u # us) = Inr (JStr (f @ '' '' @ l))"
  using assms by (simp add: display_name_def get_peek)

lemma pick_user_name_miss:
  assumes "\<not> list_ex (id_matches env userId) (elements (peek d ''items''))"
  shows "pick_user_name env userId d = Inl TypeError"
proof (cases "get d ''items''")
  case (Inl e)
  then show ?thesis
    by (auto simp: pick_user_name_def dest: get_error)
next
  case (Inr items)
  then have p: "peek d ''items'' = items"
    by (simp add: peek_def)
  show ?thesis
  proof (cases items)
    case (JArr us)
    show ?thesis
    proof (cases "filter_users env userId us")
      case (Inl e)
      then show ?thesis
        using Inr JArr by (auto simp: pick_user_name_def dest: filter_users_error)
    next
      case (Inr users)
      then have "users = filter (id_matches env userId) us"
        by (rule filter_users_Inr)
      then have "users = []"
        using assms p JArr by (auto simp: list_ex_iff filter_empty_conv)
      then show ?thesis
        using \<open>get d ''items'' = Inr items\<close> JArr Inr by (simp add: pick_user_name_def display_name_def)
    qed
  qed (use Inr in \<open>simp_all add: pick_user_name_def\<close>)
qed

lemma delivered_append:
  "delivered net old (xs @ ys) = delivered net old xs + delivered net (old @ xs) ys"
  by (induction xs arbitrary: old) simp_all


lemma extract_ids_eq:
  "extract_ids b =
     (if absent_parent b then Inl TypeError
      else Inr (path b [''sys'', ''id''], path b [''sys'', ''space'', ''sys'', ''id''],
                path b [''sys'', ''type'']))"
proof (cases "nullish b")
  case True
  then show ?thesis
    by (simp add: extract_ids_def absent_parent_def get_nullish)
next
  case b: False
  show ?thesis
  proof (cases "nullish (peek b ''sys'')")
    case True
    then show ?thesis
      using b by (simp add: extract_ids_def absent_parent_def get_nullish get_peek)
  next
    case s: False
    show ?thesis
    proof (cases "nullish (peek (peek b ''sys'') ''space'')")
      case True
      then show ?thesis
        using b s by (simp add: extract_ids_def absent_parent_def get_nullish get_peek)
    next
      case sp: False
      show ?thesis
        using b s sp
        by (cases "nullish (peek (peek (peek b ''sys'') ''space'') ''sys'')")
           (simp_all add: extract_ids_def absent_parent_def get_nullish get_peek)
    qed
  qed
qed

lemma extract_ids_type:
  "extract_ids b = Inr (i, spaceId, ty) \<Longrightarrow> get_path b [''sys'', ''type''] = Inr ty"
  by (auto simp: extract_ids_def split: sum.splits)

text \<open>The assignments of lines 60 to 81, when no template literal throws.\<close>

lemma prepare_Inr:
  assumes "prepare env req i spaceId ty st = (Inr u, st')"
  shows "\<exists>space fragment entity.
           ToString spaceId = Inr space \<and> typeUrlMap_at env ty = Inr fragment
           \<and> ToString i = Inr entity
           \<and> st' = st\<lparr>cmaURL := Some (''https://api.contentful.com/spaces/'' @ space @ ''/''),
                      contentfulDeeplinkURL :=
                        Some (''https://app.contentful.com/spaces/'' @ space @ ''/''
                              @ var_text fragment @ ''/'' @ entity),
                      slackMessageTemplate :=
                        Some (template (header req ''x-contentful-webhook-name'')
                                       (header req ''x-contentful-topic''))\<rparr>"
  using assms by (auto simp: prepare_def Let_def split: sum.splits)

lemma prepare_keeps:
  assumes "prepare env req i spaceId ty st = (r, st')"
  shows "body st' = body st \<and> type_m st' = type_m st \<and> id_m st' = id_m st
         \<and> calls st' = calls st \<and> console st' = console st"
  using assms by (auto simp: prepare_def Let_def split: sum.splits)

lemma handle_Entry:
  assumes "extract_ids (request_body req) = Inr (i, spaceId, ty)"
    and "loose_eq env ty (JStr ''Entry'') = Inr True"
    and "prepare env req i spaceId ty (st\<lparr>body := request_body req\<rparr>) = (Inr (), st0)"
  shows "handle env net req st =
    (case getUserId env net st0 of
       (Inl e, st1) \<Rightarrow> (Uncaught e, st1)
     | (Inr p, st1) \<Rightarrow>
         respond (then_p (then_p (p, st1) (getUserName env net)) (postToSlack env net)))"
  using assms by (simp add: handle_def Let_def)

text \<open>
  An exception thrown by the direct call of \<^verbatim>\<open>getUserId\<close> (line 88), as when
  \<^verbatim>\<open>body.sys.updatedBy\<close> is \<^verbatim>\<open>null\<close>, is not a rejection of the chain: it leaves the
  handler.
\<close>

lemma getUserId_throws:
  assumes "extract_ids (request_body req) = Inr (i, spaceId, ty)"
    and "loose_eq env ty (JStr ''Entry'') = Inr True"
    and "prepare env req i spaceId ty (st\<lparr>body := request_body req\<rparr>) = (Inr (), st0)"
    and "getUserId env net st0 = (Inl e, st1)"
  shows "handle env net req st = (Uncaught e, st1)"
  by (simp add: handle_Entry [OF assms(1,2,3)] assms(4))

lemma steps_keep_vars:
  assumes "getUserId env net st0 = (r1, st1)" and "getUserName env net userId st1 = (r2, st2)"
  shows "body st2 = body st0 \<and> contentfulDeeplinkURL st2 = contentfulDeeplinkURL st0
         \<and> slackMessageTemplate st2 = slackMessageTemplate st0 \<and> console st2 = console st0"
  using getUserId_state [OF assms(1)] getUserName_state [OF assms(2)] by auto

text \<open>The call that the chain ends with, when it reaches the Slack post.\<close>

lemma slack_call:
  assumes ex: "extract_ids (request_body req) = Inr (i, spaceId, ty)"
    and entry: "loose_eq env ty (JStr ''Entry'') = Inr True"
    and prep: "prepare env req i spaceId ty (st\<lparr>body := request_body req\<rparr>) = (Inr (), st0)"
    and uid: "getUserId env net st0 = (Inr (Fulfilled userId), st1)"
    and name: "getUserName env net userId st1 = (Inr (Fulfilled displayName), st2)"
    and post: "postToSlack env net displayName st2 = (Inr p, st3)"
    and texts: "ToString displayName = Inr name_text" "ToString spaceId = Inr space"
      "ToString i = Inr entity"
  shows "calls (snd (handle env net req st)) = calls st2 @
           [\<lparr>url = env_value (slackURL env), http_method = ''POST'', headers = [],
             data = JSON_stringify
               \<lparr>username = ''Webhook: '' @ var_text (header req ''x-contentful-webhook-name''),
                icon_emoji = '':contentful:'',
                attachments =
                  [\<lparr>fallback = entry_text name_text space entity,
                    pretext = entry_text name_text space entity,
                    color = ''#000000'',
                    fields_a =
                      \<lparr>title = ''Action applied to Entry'',
                       value_field = env_value (header req ''x-contentful-topic''),
                       short = False\<rparr>
                      # map (field_of (request_body req))
                            (forin_keys (path (request_body req) [''fields'']))\<rparr>]\<rparr>\<rparr>]"
proof -
  let ?b = "request_body req"
  let ?t = "template (header req ''x-contentful-webhook-name'') (header req ''x-contentful-topic'')"
  let ?a = "hd (attachments ?t)"
  let ?dl = "''https://app.contentful.com/spaces/'' @ space @ ''/entries/'' @ entity"
  have st0: "body st0 = ?b" "contentfulDeeplinkURL st0 = Some ?dl"
    "slackMessageTemplate st0 = Some ?t"
    using prepare_Inr [OF prep] texts(2,3) Entry_fragment [OF entry]
    by (auto simp: var_text_def)
  have vars: "body st2 = ?b" "contentfulDeeplinkURL st2 = Some ?dl"
    "slackMessageTemplate st2 = Some ?t"
    using steps_keep_vars [OF uid name] st0 by simp_all
  have att: "attachments ?t = ?a # []"
    by (simp add: template_def)
  have ty: "get_path (body st2) [''sys'', ''type''] = Inr ty"
    using ex vars(1) by (simp add: extract_ids_type del: get_path.simps)
  have msg: "message_text displayName (contentfulDeeplinkURL st2) ty
               = Inr (entry_text name_text space entity)"
    using texts(1) Entry_text [OF entry]
    by (simp add: message_text_def entry_text_def vars(2) var_text_def)
  have ok: "list_all (\<lambda>k. \<not> nullish (path (body st2) [''fields'', k]))
                     (forin_keys (path (body st2) [''fields'']))"
    using post by (rule postToSlack_Inr(1))
  define m where "m = ?t\<lparr>attachments :=
      ?a\<lparr>fields_a := fields_a ?a @ map (field_of (body st2)) (forin_keys (path (body st2) [''fields''])),
         fallback := entry_text name_text space entity,
         pretext := entry_text name_text space entity\<rparr> # []\<rparr>"
  have run: "postToSlack env net displayName st2 =
      (Inr (net (calls st2) (slack_request env m)),
       st2\<lparr>slackMessageTemplate := Some m, calls := calls st2 @ [slack_request env m]\<rparr>)"
    using vars(3) att ty msg ok m_def by (rule postToSlack_ok)
  have "calls (snd (handle env net req st)) = calls st3"
    by (simp add: handle_Entry [OF ex entry prep] uid then_p_def name post respond_def fail_def
             split: promise.splits)
  also have "\<dots> = calls st2 @ [slack_request env m]"
    using run post by simp
  finally show ?thesis
    by (simp add: m_def vars(1) template_def slack_request_def)
qed

lemma handle_no_parent:
  "absent_parent (request_body req) \<Longrightarrow>
     handle env net req st = (Uncaught TypeError, st\<lparr>body := request_body req\<rparr>)"
  by (simp add: handle_def Let_def extract_ids_eq del: path.simps)

lemma handle_filtered:
  assumes "\<not> absent_parent (request_body req)"
    and "loose_eq env (path (request_body req) [''sys'', ''type'']) (JStr ''Entry'') = Inr False"
  shows "handle env net req st =
           (Responded 200 (Text ''I am only posting entries to slack!''),
            st\<lparr>body := request_body req\<rparr>)"
  using assms by (simp add: handle_def Let_def extract_ids_eq del: path.simps)

text \<open>
  The handler reads no module-level variable that it has not assigned before: started on a
  state with other values in them, it responds, calls and logs the same.
\<close>

lemma prepare_fresh:
  "fst (prepare env req i spaceId ty ((fresh st)\<lparr>body := b\<rparr>))
     = fst (prepare env req i spaceId ty (st\<lparr>body := b\<rparr>))
   \<and> calls (snd (prepare env req i spaceId ty ((fresh st)\<lparr>body := b\<rparr>)))
       = calls (snd (prepare env req i spaceId ty (st\<lparr>body := b\<rparr>)))
   \<and> console (snd (prepare env req i spaceId ty ((fresh st)\<lparr>body := b\<rparr>)))
       = console (snd (prepare env req i spaceId ty (st\<lparr>body := b\<rparr>)))
   \<and> (\<forall>u st0. prepare env req i spaceId ty (st\<lparr>body := b\<rparr>) = (Inr u, st0) \<longrightarrow>
         prepare env req i spaceId ty ((fresh st)\<lparr>body := b\<rparr>) = (Inr u, st0))"
  by (cases st) (auto simp: prepare_def Let_def fresh_def init_def split: sum.splits)

lemma handle_fresh:
  "fst (handle env net req (fresh st)) = fst (handle env net req st)
   \<and> calls (snd (handle env net req (fresh st))) = calls (snd (handle env net req st))
   \<and> console (snd (handle env net req (fresh st))) = console (snd (handle env net req st))"
proof (cases "extract_ids (request_body req)")
  case (Inl e)
  then show ?thesis
    by (simp add: handle_def Let_def fresh_def)
next
  case (Inr t)
  obtain i spaceId ty where t: "t = (i, spaceId, ty)"
    by (cases t)
  show ?thesis
  proof (cases "loose_eq env ty (JStr ''Entry'')")
    case (Inl e)
    then show ?thesis
      using Inr t by (simp add: handle_def Let_def fresh_def)
  next
    case eq: (Inr equal)
    show ?thesis
    proof (cases equal)
      case False
      then show ?thesis
        using Inr t eq by (simp add: handle_def Let_def fresh_def)
    next
      case True
      let ?p = "prepare env req i spaceId ty (st\<lparr>body := request_body req\<rparr>)"
      let ?q = "prepare env req i spaceId ty ((fresh st)\<lparr>body := request_body req\<rparr>)"
      note pf = prepare_fresh [where env = env and req = req and i = i and spaceId = spaceId
          and ty = ty and st = st and b = "request_body req"]
      show ?thesis
      proof (cases "fst ?p")
        case (Inl e)
        then obtain sp where p: "?p = (Inl e, sp)"
          by (cases ?p) simp
        have "fst ?q = Inl e"
          using pf Inl by simp
        then obtain sq where q: "?q = (Inl e, sq)"
          by (cases ?q) simp
        have "calls sq = calls sp \<and> console sq = console sp"
          using pf p q by simp
        then show ?thesis
          using Inr t eq True p q by (simp add: handle_def Let_def)
      next
        case u: (Inr u)
        then obtain st0 where p: "?p = (Inr u, st0)"
          by (cases ?p) simp
        then have q: "?q = (Inr u, st0)"
          using pf by blast
        show ?thesis
          using Inr t eq True p q by (simp add: handle_def Let_def)
      qed
    qed
  qed
qed


text \<open>Deliveries: the lookups are not posts, and the chain posts at most once.\<close>

lemma getUserId_calls:
  assumes "getUserId env net st0 = (r1, st1)"
  shows "\<exists>g. calls st1 = calls st0 @ g \<and> delivered net (calls st0) g = 0"
  using getUserId_state [OF assms]
proof
  assume "st1 = st0"
  then have "calls st1 = calls st0 @ [] \<and> delivered net (calls st0) [] = 0"
    by simp
  then show ?thesis ..
next
  assume "\<exists>u. entity_url env st0 = Inr u
              \<and> st1 = st0\<lparr>calls := calls st0 @ [entity_request env u]\<rparr>"
  then obtain u where "st1 = st0\<lparr>calls := calls st0 @ [entity_request env u]\<rparr>"
    by blast
  then have "calls st1 = calls st0 @ [entity_request env u]
             \<and> delivered net (calls st0) [entity_request env u] = 0"
    by (simp add: entity_request_def)
  then show ?thesis ..
qed

lemma delivered_chain:
  assumes uid: "getUserId env net st0 = (r1, st1)"
  shows "delivered net (calls st0)
           (drop (length (calls st0))
              (calls (snd (case (r1, st1) of
                             (Inl e, st1) \<Rightarrow> (Uncaught e, st1)
                           | (Inr p, st1) \<Rightarrow>
                               respond (then_p (then_p (p, st1) (getUserName env net))
                                               (postToSlack env net))))))
         = (if fst (case (r1, st1) of
                      (Inl e, st1) \<Rightarrow> (Uncaught e, st1)
                    | (Inr p, st1) \<Rightarrow>
                        respond (then_p (then_p (p, st1) (getUserName env net))
                                        (postToSlack env net)))
               = Responded 200 (Text ''Slack post successful!'')
            then 1 else 0)"
proof -
  obtain g where g: "calls st1 = calls st0 @ g" "delivered net (calls st0) g = 0"
    using getUserId_calls [OF uid] by auto
  show ?thesis
  proof (cases r1)
    case (Inl e)
    then show ?thesis
      using g by simp
  next
    case (Inr p)
    show ?thesis
    proof (cases p)
      case (Rejected e)
      then show ?thesis
        using g Inr by (simp add: then_p_def respond_def fail_def)
    next
      case (Fulfilled userId)
      obtain r2 st2 where name: "getUserName env net userId st1 = (r2, st2)"
        by (cases "getUserName env net userId st1")
      obtain q where q: "r2 = Inr q"
        and c2: "calls st2 = calls st0 @ g @ [users_request env st1]"
        using getUserName_state [OF name] g(1) by auto
      have d2: "delivered net (calls st0) (g @ [users_request env st1]) = 0"
        by (simp add: delivered_append g(2) users_request_def)
      show ?thesis
      proof (cases q)
        case (Rejected e)
        then show ?thesis
          using Inr Fulfilled q c2 d2 by (simp add: name then_p_def respond_def fail_def)
      next
        case n: (Fulfilled userName)
        obtain r3 st3 where post: "postToSlack env net userName st2 = (r3, st3)"
          by (cases "postToSlack env net userName st2")
        note pc = postToSlack_calls [OF post]
        show ?thesis
        proof (cases r3)
          case (Inl e)
          then have "calls st3 = calls st2"
            using pc by simp
          then show ?thesis
            using Inr Fulfilled q n Inl c2 d2
            by (simp add: name post then_p_def respond_def fail_def)
        next
          case r3: (Inr p3)
          then obtain m where m: "calls st3 = calls st2 @ [slack_request env m]"
            "p3 = net (calls st2) (slack_request env m)"
            using pc by auto
          have "delivered net (calls st0) ((g @ [users_request env st1]) @ [slack_request env m])
                  = delivered net (calls st0) (g @ [users_request env st1])
                    + delivered net (calls st0 @ (g @ [users_request env st1]))
                        [slack_request env m]"
            by (rule delivered_append)
          moreover have "delivered net (calls st0 @ (g @ [users_request env st1]))
                           [slack_request env m]
                         = (case p3 of Fulfilled _ \<Rightarrow> 1 | Rejected _ \<Rightarrow> 0)"
            using m(2) c2 by (simp add: slack_request_def split: promise.splits)
          ultimately have d3:
            "delivered net (calls st0) (g @ [users_request env st1] @ [slack_request env m])
               = (case p3 of Fulfilled _ \<Rightarrow> 1 | Rejected _ \<Rightarrow> 0)"
            using d2 by simp
          show ?thesis
            using Inr Fulfilled q n r3 c2 m(1) d3
            by (cases p3) (simp_all add: name post then_p_def respond_def fail_def)
        qed
      qed
    qed
  qed
qed

lemma delivered_handle:
  "delivered net (calls st) (drop (length (calls st)) (calls (snd (handle env net req st))))
     = (if fst (handle env net req st) = Responded 200 (Text ''Slack post successful!'')
        then 1 else 0)"
proof (cases "extract_ids (request_body req)")
  case (Inl e)
  then show ?thesis
    by (simp add: handle_def Let_def)
next
  case (Inr t)
  obtain i spaceId ty where t: "t = (i, spaceId, ty)"
    by (cases t)
  have ex: "extract_ids (request_body req) = Inr (i, spaceId, ty)"
    using Inr t by simp
  show ?thesis
  proof (cases "loose_eq env ty (JStr ''Entry'')")
    case (Inl e)
    then show ?thesis
      using ex by (simp add: handle_def Let_def)
  next
    case eq: (Inr equal)
    show ?thesis
    proof (cases equal)
      case False
      then show ?thesis
        using ex eq by (simp add: handle_def Let_def)
    next
      case True
      obtain r0 st0 where prep:
        "prepare env req i spaceId ty (st\<lparr>body := request_body req\<rparr>) = (r0, st0)"
        by (cases "prepare env req i spaceId ty (st\<lparr>body := request_body req\<rparr>)")
      have c0: "calls st0 = calls st"
        using prepare_keeps [OF prep] by simp
      show ?thesis
      proof (cases r0)
        case (Inl e)
        then show ?thesis
          using ex eq True prep c0 by (simp add: handle_def Let_def)
      next
        case (Inr u)
        obtain r1 st1 where uid: "getUserId env net st0 = (r1, st1)"
          by (cases "getUserId env net st0")
        have "handle env net req st =
                (case (r1, st1) of
                   (Inl e, st1) \<Rightarrow> (Uncaught e, st1)
                 | (Inr p, st1) \<Rightarrow>
                     respond (then_p (then_p (p, st1) (getUserName env net))
                                     (postToSlack env net)))"
          using ex eq True prep Inr uid by (simp add: handle_def Let_def)
        then show ?thesis
          using delivered_chain [OF uid] c0 by simp
      qed
    qed
  qed
qed

text \<open>
  No assignment reaches the module-level \<^verbatim>\<open>type\<close> and \<^verbatim>\<open>id\<close>: the handler declares
  constants of the same names. They stay as they are through every request, and the URL of
  line 114 is built from them.
\<close>

lemma append_fields_type_id:
  "append_fields keys st = (r, st') \<Longrightarrow> type_m st' = type_m st \<and> id_m st' = id_m st"
proof (induction keys arbitrary: st)
  case Nil
  then show ?case by simp
next
  case (Cons k keys)
  then show ?case
    by (fastforce simp: push_field_def split: prod.splits sum.splits option.splits list.splits)
qed

lemma postToSlack_type_id:
  assumes "postToSlack env net userName st = (r, st')"
  shows "type_m st' = type_m st \<and> id_m st' = id_m st"
  using assms
  unfolding postToSlack_def Let_def
  by (auto simp: set_texts_def axios_def Let_def
           split: sum.splits prod.splits option.splits list.splits
           dest!: append_fields_type_id)

lemma chain_type_id:
  assumes uid: "getUserId env net st0 = (r1, st1)"
  shows "type_m (snd (case (r1, st1) of
                        (Inl e, st1) \<Rightarrow> (Uncaught e, st1)
                      | (Inr p, st1) \<Rightarrow>
                          respond (then_p (then_p (p, st1) (getUserName env net))
                                          (postToSlack env net)))) = type_m st0
         \<and> id_m (snd (case (r1, st1) of
                        (Inl e, st1) \<Rightarrow> (Uncaught e, st1)
                      | (Inr p, st1) \<Rightarrow>
                          respond (then_p (then_p (p, st1) (getUserName env net))
                                          (postToSlack env net)))) = id_m st0"
proof -
  have k1: "type_m st1 = type_m st0 \<and> id_m st1 = id_m st0"
    using getUserId_state [OF uid] by auto
  show ?thesis
  proof (cases r1)
    case (Inl e)
    then show ?thesis
      using k1 by simp
  next
    case (Inr p)
    show ?thesis
    proof (cases p)
      case (Rejected e)
      then show ?thesis
        using k1 Inr by (simp add: then_p_def respond_def fail_def)
    next
      case (Fulfilled userId)
      obtain r2 st2 where name: "getUserName env net userId st1 = (r2, st2)"
        by (cases "getUserName env net userId st1")
      obtain q where q: "r2 = Inr q"
        and k2: "type_m st2 = type_m st0 \<and> id_m st2 = id_m st0"
        using getUserName_state [OF name] k1 by auto
      show ?thesis
      proof (cases q)
        case (Rejected e)
        then show ?thesis
          using Inr Fulfilled q k2 by (simp add: name then_p_def respond_def fail_def)
      next
        case n: (Fulfilled userName)
        obtain r3 st3 where post: "postToSlack env net userName st2 = (r3, st3)"
          by (cases "postToSlack env net userName st2")
        have k3: "type_m st3 = type_m st0 \<and> id_m st3 = id_m st0"
          using postToSlack_type_id [OF post] k2 by simp
        show ?thesis
          using Inr Fulfilled q n k3
          by (simp add: name post then_p_def respond_def fail_def
                   split: sum.splits promise.splits)
      qed
    qed
  qed
qed

lemma handle_type_id:
  "type_m (snd (handle env net req st)) = type_m st
   \<and> id_m (snd (handle env net req st)) = id_m st"
proof (cases "extract_ids (request_body req)")
  case (Inl e)
  then show ?thesis
    by (simp add: handle_def Let_def)
next
  case (Inr t)
  obtain i spaceId ty where t: "t = (i, spaceId, ty)"
    by (cases t)
  have ex: "extract_ids (request_body req) = Inr (i, spaceId, ty)"
    using Inr t by simp
  show ?thesis
  proof (cases "loose_eq env ty (JStr ''Entry'')")
    case (Inl e)
    then show ?thesis
      using ex by (simp add: handle_def Let_def)
  next
    case eq: (Inr equal)
    show ?thesis
    proof (cases equal)
      case False
      then show ?thesis
        using ex eq by (simp add: handle_def Let_def)
    next
      case True
      obtain r0 st0 where prep:
        "prepare env req i spaceId ty (st\<lparr>body := request_body req\<rparr>) = (r0, st0)"
        by (cases "prepare env req i spaceId ty (st\<lparr>body := request_body req\<rparr>)")
      have k0: "type_m st0 = type_m st \<and> id_m st0 = id_m st"
        using prepare_keeps [OF prep] by simp
      show ?thesis
      proof (cases r0)
        case (Inl e)
        then show ?thesis
          using ex eq True prep k0 by (simp add: handle_def Let_def)
      next
        case (Inr u)
        obtain r1 st1 where uid: "getUserId env net st0 = (r1, st1)"
          by (cases "getUserId env net st0")
        have "handle env net req st =
                (case (r1, st1) of
                   (Inl e, st1) \<Rightarrow> (Uncaught e, st1)
                 | (Inr p, st1) \<Rightarrow>
                     respond (then_p (then_p (p, st1) (getUserName env net))
                                     (postToSlack env net)))"
          using ex eq True prep Inr uid by (simp add: handle_def Let_def)
        then show ?thesis
          using chain_type_id [OF uid] k0 by simp
      qed
    qed
  qed
qed

lemma serve_type_id:
  "type_m (snd (serve env net reqs st)) = type_m st
   \<and> id_m (snd (serve env net reqs st)) = id_m st"
proof (induction reqs arbitrary: st)
  case Nil
  then show ?case by simp
next
  case (Cons req reqs)
  obtain out st1 where h: "handle env net req st = (out, st1)"
    by (cases "handle env net req st")
  obtain outs st2 where s: "serve env net reqs st1 = (outs, st2)"
    by (cases "serve env net reqs st1")
  have "type_m st1 = type_m st \<and> id_m st1 = id_m st"
    using handle_type_id [of env net req st] h by simp
  moreover have "type_m st2 = type_m st1 \<and> id_m st2 = id_m st1"
    using Cons.IH [of st1] s by simp
  ultimately show ?case
    using h s by simp
qed

lemma entity_url_unassigned:
  assumes "type_m st = JUndef" and "id_m st = JUndef" and "Inherited env ''undefined'' = None"
    and "prepare env req i spaceId ty st = (Inr (), st0)" and "ToString spaceId = Inr space"
  shows "entity_url env st0
           = Inr (''https://api.contentful.com/spaces/'' @ space @ ''/undefined/undefined'')"
  using prepare_Inr [OF assms(4)] assms(1,2,3,5)
  by (auto simp: entity_url_def typeUrlMap_at_def typeUrlMap_def var_text_def)

text \<open>
  \<^verbatim>\<open>getUserId\<close> with and without \<^verbatim>\<open>body.sys.updatedBy\<close>: no call and the id of the
  body (or the exception of reading it), or exactly one call, the entity lookup, unless
  building its URL throws.
\<close>

lemma getUserId_updatedBy_present:
  assumes "get_path (body st) [''sys'', ''updatedBy''] = Inr updatedBy" and "updatedBy \<noteq> JUndef"
  shows "getUserId env net st =
           (case get_path updatedBy [''sys'', ''id''] of
              Inl e \<Rightarrow> (Inl e, st)
            | Inr v \<Rightarrow> (Inr (Fulfilled v), st))"
  using assms by (simp add: getUserId_def del: get_path.simps)

lemma getUserId_updatedBy_absent:
  assumes "get_path (body st) [''sys'', ''updatedBy''] = Inr JUndef"
    and "entity_url env st = Inr u"
  shows "calls (snd (getUserId env net st)) = calls st @ [entity_request env u]"
  using assms
  by (simp add: getUserId_def axios_def del: get_path.simps split: promise.splits sum.splits)

text \<open>A request that posts has printable name, space id and entity id.\<close>

lemma chain_texts:
  assumes prep: "prepare env req i spaceId ty st = (Inr (), st0)"
    and post: "postToSlack env net displayName st2 = (Inr p, st3)"
  shows "\<exists>name_text space entity.
           ToString displayName = Inr name_text \<and> ToString spaceId = Inr space
           \<and> ToString i = Inr entity"
proof -
  obtain ty' msg where "message_text displayName (contentfulDeeplinkURL st2) ty' = Inr msg"
    using postToSlack_Inr(2) [OF post] by blast
  then have "\<exists>name_text. ToString displayName = Inr name_text"
    by (auto simp: message_text_def split: sum.splits)
  then show ?thesis
    using prepare_Inr [OF prep] by blast
qed

section \<open>The claims\<close>

subsection \<open>C1: the type filter\<close>

text \<open>
  C1, as the code has it. For every inbound request whose field extraction succeeds (none of
  \<^verbatim>\<open>body\<close>, \<^verbatim>\<open>body.sys\<close>, \<^verbatim>\<open>body.sys.space\<close>, \<^verbatim>\<open>body.sys.space.sys\<close> is
  \<^verbatim>\<open>undefined\<close> or \<^verbatim>\<open>null\<close>) and whose \<^verbatim>\<open>sys.type\<close> has a string conversion, to
  a string other than \<^verbatim>\<open>Entry\<close>, the handler responds with status 200 and the
  informational message, and does nothing else: the state is the one before but for
  \<^verbatim>\<open>body\<close>, so no outbound call is made and nothing is logged. The condition on the
  conversion leaves out the string \<^verbatim>\<open>Entry\<close>, the arrays that print as \<^verbatim>\<open>Entry\<close>, and
  the values on which the comparison of line 54 throws.
\<close>

theorem type_filter_responds_200:
  assumes "\<not> absent_parent (request_body req)"
    and "ToString (path (request_body req) [''sys'', ''type'']) = Inr s"
    and "s \<noteq> ''Entry''"
  shows "handle env net req st =
           (Responded 200 (Text ''I am only posting entries to slack!''),
            st\<lparr>body := request_body req\<rparr>)"
  using assms(1) not_Entry [OF assms(2,3)] by (rule handle_filtered)

text \<open>
  The claim without the conditions fails, in three ways: an asset whose body has no
  \<^verbatim>\<open>sys.space\<close> makes line 47 throw before the filter of line 54 is reached;
  \<^verbatim>\<open>["Entry"] != 'Entry'\<close> is false, so a body whose \<^verbatim>\<open>sys.type\<close> is that array runs
  the whole pipeline, with a lookup and a Slack post; and on a body whose \<^verbatim>\<open>sys.type\<close> is
  the object \<^verbatim>\<open>{"toString": 1}\<close> the comparison itself throws a \<^verbatim>\<open>TypeError\<close>, which
  leaves the handler with no response.
\<close>

theorem type_filter_counterexample:
  "path body_no_space [''sys'', ''type''] \<noteq> JStr ''Entry''
   \<and> fst (handle env_ex net_down (request_of body_no_space) init) = Uncaught TypeError
   \<and> path body_array_type [''sys'', ''type''] \<noteq> JStr ''Entry''
   \<and> fst (handle env_ex (net_up [ada]) (request_of body_array_type) init)
       = Responded 200 (Text ''Slack post successful!'')
   \<and> map http_method (calls (snd (handle env_ex (net_up [ada]) (request_of body_array_type) init)))
       = [''GET'', ''POST'']
   \<and> path body_object_type [''sys'', ''type''] \<noteq> JStr ''Entry''
   \<and> \<not> absent_parent body_object_type
   \<and> fst (handle env_ex net_down (request_of body_object_type) init) = Uncaught TypeError"
  by code_simp

theorem type_filter_responds_200_witness:
  "\<not> absent_parent (request_body (request_of body_asset))
   \<and> ToString (path (request_body (request_of body_asset)) [''sys'', ''type'']) = Inr ''Asset''
   \<and> ''Asset'' \<noteq> ''Entry''
   \<and> handle env_ex net_down (request_of body_asset) init
       = (Responded 200 (Text ''I am only posting entries to slack!''),
          init\<lparr>body := request_body (request_of body_asset)\<rparr>)"
proof -
  have h1: "\<not> absent_parent (request_body (request_of body_asset))"
    by code_simp
  have h2: "ToString (path (request_body (request_of body_asset)) [''sys'', ''type''])
              = Inr ''Asset''"
    by code_simp
  have h3: "''Asset'' \<noteq> ''Entry''"
    by simp
  show ?thesis
    using h1 h2 h3 type_filter_responds_200 [OF h1 h2 h3, of env_ex net_down init] by blast
qed

subsection \<open>C2: resolving the user id\<close>

text \<open>
  C2 at the published entry, whose body has no \<^verbatim>\<open>sys.updatedBy\<close>: the handler issues one
  call, the entity lookup of \<^verbatim>\<open>getUserId\<close>, and its URL ends in
  \<^verbatim>\<open>undefined/undefined\<close> where the claim has \<^verbatim>\<open>entries/e1\<close>.
\<close>

theorem published_entry_lookup_url:
  "peek (peek body_published ''sys'') ''updatedBy'' = JUndef
   \<and> calls (snd (handle env_ex net_down (request_of body_published) init))
       = [\<lparr>url = JStr ''https://api.contentful.com/spaces/sp/undefined/undefined'',
           http_method = ''GET'', headers = [(''Authorization'', ''Bearer token'')],
           data = NoData\<rparr>]"
  by code_simp

subsection \<open>C3: the display name\<close>

text \<open>
  C3, as the code has it. For every users-collection response whose \<^verbatim>\<open>data.items\<close> is an
  array on every element of which the comparison \<^verbatim>\<open>user.sys.id == userId\<close> of line 141
  can be evaluated (\<^verbatim>\<open>user.sys\<close> is there, and the comparison does not throw), and for the
  user \<open>u\<close> that is the first of the collection whose id equals the resolved user id, when
  \<open>u\<close>'s \<^verbatim>\<open>firstName\<close> and \<^verbatim>\<open>lastName\<close> have string conversions,
  \<^verbatim>\<open>getUserName\<close> makes the one users call and resolves to \<open>u\<close>'s
  \<^verbatim>\<open>firstName + ' ' + lastName\<close>.
\<close>

theorem getUserName_first_match:
  assumes "net (calls st) (users_request env st) = Fulfilled d"
    and "peek d ''items'' = JArr items"
    and "list_all (comparable env userId) items"
    and "find (id_matches env userId) items = Some u"
    and "ToString (peek u ''firstName'') = Inr first_name"
    and "ToString (peek u ''lastName'') = Inr last_name"
  shows "getUserName env net userId st =
           (Inr (Fulfilled (JStr (first_name @ '' '' @ last_name))),
            st\<lparr>calls := calls st @ [users_request env st]\<rparr>)"
proof -
  have items: "get d ''items'' = Inr (JArr items)"
    using assms(2) by (rule peek_get) simp
  obtain rest where f: "filter (id_matches env userId) items = u # rest"
    using find_filter [OF assms(4)] by blast
  have "u \<in> set (filter (id_matches env userId) items)"
    by (simp add: f)
  then have "\<not> nullish u"
    by (auto dest: id_matches_not_nullish)
  then have "pick_user_name env userId d = Inr (JStr (first_name @ '' '' @ last_name))"
    using assms(5,6)
    by (simp add: pick_user_name_def items filter_users_ok [OF assms(3)] f display_name_first)
  then show ?thesis
    by (simp add: getUserName_def axios_def assms(1) users_then_def)
qed

text \<open>
  The claim as stated, for every collection containing a user whose id equals the resolved
  one, fails: with an element without \<^verbatim>\<open>sys\<close> in front of Ada Lovelace, line 141 throws
  and the step is rejected; and with Charles Babbage under the same id \<^verbatim>\<open>U1\<close> in front of
  her, the step resolves to his name, not to hers.
\<close>

theorem getUserName_counterexample:
  "id_matches env_ex (JStr ''U1'') ada
   \<and> getUserName env_ex (net_up [nameless, ada]) (JStr ''U1'') st_saved
       = (Inr (Rejected TypeError), st_named)
   \<and> getUserName env_ex (net_up [charles, ada]) (JStr ''U1'') st_saved
       = (Inr (Fulfilled (JStr ''Charles Babbage'')), st_named)"
  by code_simp

text \<open>The instance of the claim: the collection holds Ada Lovelace under \<^verbatim>\<open>U1\<close>.\<close>

theorem getUserName_first_match_witness:
  "net_up [grace, ada] (calls st_saved) (users_request env_ex st_saved)
     = Fulfilled (JObj [(''items'', JArr [grace, ada])])
   \<and> peek (JObj [(''items'', JArr [grace, ada])]) ''items'' = JArr [grace, ada]
   \<and> list_all (comparable env_ex (JStr ''U1'')) [grace, ada]
   \<and> find (id_matches env_ex (JStr ''U1'')) [grace, ada] = Some ada
   \<and> ToString (peek ada ''firstName'') = Inr ''Ada''
   \<and> ToString (peek ada ''lastName'') = Inr ''Lovelace''
   \<and> getUserName env_ex (net_up [grace, ada]) (JStr ''U1'') st_saved
       = (Inr (Fulfilled (JStr ''Ada Lovelace'')),
          st_saved\<lparr>calls := calls st_saved @ [users_request env_ex st_saved]\<rparr>)"
proof -
  have h1: "net_up [grace, ada] (calls st_saved) (users_request env_ex st_saved)
              = Fulfilled (JObj [(''items'', JArr [grace, ada])])"
    by code_simp
  have h2: "peek (JObj [(''items'', JArr [grace, ada])]) ''items'' = JArr [grace, ada]"
    by code_simp
  have h3: "list_all (comparable env_ex (JStr ''U1'')) [grace, ada]"
    by code_simp
  have h4: "find (id_matches env_ex (JStr ''U1'')) [grace, ada] = Some ada"
    by code_simp
  have h5: "ToString (peek ada ''firstName'') = Inr ''Ada''"
    by code_simp
  have h6: "ToString (peek ada ''lastName'') = Inr ''Lovelace''"
    by code_simp
  have "getUserName env_ex (net_up [grace, ada]) (JStr ''U1'') st_saved
       = (Inr (Fulfilled (JStr ''Ada Lovelace'')),
          st_saved\<lparr>calls := calls st_saved @ [users_request env_ex st_saved]\<rparr>)"
    using getUserName_first_match
            [where net = "net_up [grace, ada]" and st = st_saved and env = env_ex,
             OF h1 h2 h3 h4 h5 h6]
    by simp
  then show ?thesis
    using h1 h2 h3 h4 h5 h6 by blast
qed

subsection \<open>C4: the lookup miss\<close>

text \<open>
  C4. For every Entry-type request whose assignments of lines 60 to 81 are made and whose user
  id is resolved, and every response to the users call in which no element has an id equal to
  the resolved one, the user-name step fails with a \<^verbatim>\<open>TypeError\<close>, nothing is called
  after the users call (no Slack post), and the handler logs the error and responds with
  status 500.
\<close>

theorem lookup_miss_responds_500:
  assumes ex: "extract_ids (request_body req) = Inr (i, spaceId, ty)"
    and entry: "loose_eq env ty (JStr ''Entry'') = Inr True"
    and prep: "prepare env req i spaceId ty (st\<lparr>body := request_body req\<rparr>) = (Inr (), st0)"
    and uid: "getUserId env net st0 = (Inr (Fulfilled userId), st1)"
    and users: "net (calls st1) (users_request env st1) = Fulfilled d"
    and miss: "\<not> list_ex (id_matches env userId) (elements (peek d ''items''))"
  shows "handle env net req st =
           (Responded 500 (JSON_of_error TypeError),
            st1\<lparr>calls := calls st1 @ [users_request env st1],
                console := console st1 @ [(''error'', TypeError)]\<rparr>)"
proof -
  have "getUserName env net userId st1 =
          (Inr (Rejected TypeError), st1\<lparr>calls := calls st1 @ [users_request env st1]\<rparr>)"
    by (simp add: getUserName_def axios_def users users_then_def pick_user_name_miss [OF miss])
  then show ?thesis
    by (simp add: handle_Entry [OF ex entry prep] uid then_p_def respond_def fail_def)
qed

theorem lookup_miss_responds_500_witness:
  "extract_ids (request_body (request_of body_saved)) = Inr (JStr ''e1'', JStr ''sp'', JStr ''Entry'')
   \<and> loose_eq env_ex (JStr ''Entry'') (JStr ''Entry'') = Inr True
   \<and> prepare env_ex (request_of body_saved) (JStr ''e1'') (JStr ''sp'') (JStr ''Entry'')
        (init\<lparr>body := request_body (request_of body_saved)\<rparr>) = (Inr (), st_saved)
   \<and> getUserId env_ex (net_up [grace]) st_saved = (Inr (Fulfilled (JStr ''U1'')), st_saved)
   \<and> net_up [grace] (calls st_saved) (users_request env_ex st_saved)
       = Fulfilled (JObj [(''items'', JArr [grace])])
   \<and> \<not> list_ex (id_matches env_ex (JStr ''U1''))
          (elements (peek (JObj [(''items'', JArr [grace])]) ''items''))
   \<and> handle env_ex (net_up [grace]) (request_of body_saved) init
       = (Responded 500 (JSON_of_error TypeError),
          st_saved\<lparr>calls := calls st_saved @ [users_request env_ex st_saved],
                    console := console st_saved @ [(''error'', TypeError)]\<rparr>)"
proof -
  have h1: "extract_ids (request_body (request_of body_saved))
              = Inr (JStr ''e1'', JStr ''sp'', JStr ''Entry'')"
    by code_simp
  have h2: "loose_eq env_ex (JStr ''Entry'') (JStr ''Entry'') = Inr True"
    by code_simp
  have h3: "prepare env_ex (request_of body_saved) (JStr ''e1'') (JStr ''sp'') (JStr ''Entry'')
        (init\<lparr>body := request_body (request_of body_saved)\<rparr>) = (Inr (), st_saved)"
    by code_simp
  have h4: "getUserId env_ex (net_up [grace]) st_saved = (Inr (Fulfilled (JStr ''U1'')), st_saved)"
    by code_simp
  have h5: "net_up [grace] (calls st_saved) (users_request env_ex st_saved)
       = Fulfilled (JObj [(''items'', JArr [grace])])"
    by code_simp
  have h6: "\<not> list_ex (id_matches env_ex (JStr ''U1''))
          (elements (peek (JObj [(''items'', JArr [grace])]) ''items''))"
    by code_simp
  show ?thesis
    using h1 h2 h3 h4 h5 h6 lookup_miss_responds_500 [OF h1 h2 h3 h4 h5 h6] by blast
qed

subsection \<open>C5 and C6: the message\<close>

lemma saved_run:
  "extract_ids (request_body (request_of body_saved))
     = Inr (JStr ''e1'', JStr ''sp'', JStr ''Entry'')"
  "loose_eq env_ex (JStr ''Entry'') (JStr ''Entry'') = Inr True"
  "prepare env_ex (request_of body_saved) (JStr ''e1'') (JStr ''sp'') (JStr ''Entry'')
     (init\<lparr>body := request_body (request_of body_saved)\<rparr>) = (Inr (), st_saved)"
  "getUserId env_ex (net_up [ada]) st_saved = (Inr (Fulfilled (JStr ''U1'')), st_saved)"
  "getUserName env_ex (net_up [ada]) (JStr ''U1'') st_saved
     = (Inr (Fulfilled (JStr ''Ada Lovelace'')), st_named)"
  "postToSlack env_ex (net_up [ada]) (JStr ''Ada Lovelace'') st_named
     = (Inr (Fulfilled (JStr ''ok'')),
        snd (postToSlack env_ex (net_up [ada]) (JStr ''Ada Lovelace'') st_named))"
  by code_simp+

text \<open>
  C5, as the code has it. For every Entry-type request that reaches message composition (the
  user id and the display name are resolved) and posts, with no other request handled between
  its assignments and its post, the call appended last is the \<^verbatim>\<open>POST\<close> to the Slack URL
  whose data is the JSON text of a message with one attachment whose \<^verbatim>\<open>pretext\<close> and
  \<^verbatim>\<open>fallback\<close> are both the text of the specification, with the deeplink
  \<^verbatim>\<open>https://app.contentful.com/spaces/{spaceId}/entries/{entityId}\<close>, and whose
  \<^verbatim>\<open>username\<close> is \<^verbatim>\<open>Webhook: \<close> followed by the webhook name. The placeholders
  are the string conversions of the display name, the space id and the entity id.
\<close>

theorem slack_message_texts:
  assumes ex: "extract_ids (request_body req) = Inr (i, spaceId, ty)"
    and entry: "loose_eq env ty (JStr ''Entry'') = Inr True"
    and prep: "prepare env req i spaceId ty (st\<lparr>body := request_body req\<rparr>) = (Inr (), st0)"
    and uid: "getUserId env net st0 = (Inr (Fulfilled userId), st1)"
    and name: "getUserName env net userId st1 = (Inr (Fulfilled displayName), st2)"
    and post: "postToSlack env net displayName st2 = (Inr p, st3)"
  shows "\<exists>m a name_text space entity.
           ToString displayName = Inr name_text \<and> ToString spaceId = Inr space
           \<and> ToString i = Inr entity
           \<and> calls (snd (handle env net req st)) = calls st2 @
               [\<lparr>url = env_value (slackURL env), http_method = ''POST'', headers = [],
                 data = JSON_stringify m\<rparr>]
           \<and> attachments m = [a]
           \<and> pretext a = entry_text name_text space entity
           \<and> fallback a = entry_text name_text space entity
           \<and> username m = ''Webhook: '' @ var_text (header req ''x-contentful-webhook-name'')"
proof -
  obtain name_text space entity where t: "ToString displayName = Inr name_text"
    "ToString spaceId = Inr space" "ToString i = Inr entity"
    using chain_texts [OF prep post] by blast
  note c = slack_call [OF ex entry prep uid name post t]
  show ?thesis
    by (intro exI conjI, rule t(1), rule t(2), rule t(3), rule c) simp+
qed

text \<open>
  The claim for every request fails where another request is handled in between. The saved
  entry awaits its users lookup when an asset notification arrives and is answered by the type
  filter, having overwritten \<^verbatim>\<open>body\<close> at line 45. The message that is then posted for
  the entry ends in \<^verbatim>\<open>Link to Asset\<close>, since line 160 reads \<^verbatim>\<open>body.sys.type\<close>.
\<close>

theorem slack_message_texts_counterexample:
  "posted_texts (last (calls (snd (handle_overtaken env_ex (net_up [ada]) (request_of body_saved)
                                     (request_of body_overtaking) init))))
     = [(''An Entry has just been changed by Ada Lovelace. The full Entry is below in the fields. Here is the link to the entry: <https://app.contentful.com/spaces/sp/entries/e1|Link to Asset>'',
         ''An Entry has just been changed by Ada Lovelace. The full Entry is below in the fields. Here is the link to the entry: <https://app.contentful.com/spaces/sp/entries/e1|Link to Asset>'')]
   \<and> posted_texts (last (calls (snd (handle_overtaken env_ex (net_up [ada])
                                       (request_of body_saved) (request_of body_overtaking) init))))
       \<noteq> [(entry_text ''Ada Lovelace'' ''sp'' ''e1'', entry_text ''Ada Lovelace'' ''sp'' ''e1'')]
   \<and> fst (handle_overtaken env_ex (net_up [ada]) (request_of body_saved)
             (request_of body_overtaking) init)
       = Responded 200 (Text ''Slack post successful!'')"
  by code_simp

theorem slack_message_texts_witness:
  "extract_ids (request_body (request_of body_saved))
     = Inr (JStr ''e1'', JStr ''sp'', JStr ''Entry'')
   \<and> loose_eq env_ex (JStr ''Entry'') (JStr ''Entry'') = Inr True
   \<and> prepare env_ex (request_of body_saved) (JStr ''e1'') (JStr ''sp'') (JStr ''Entry'')
        (init\<lparr>body := request_body (request_of body_saved)\<rparr>) = (Inr (), st_saved)
   \<and> getUserId env_ex (net_up [ada]) st_saved = (Inr (Fulfilled (JStr ''U1'')), st_saved)
   \<and> getUserName env_ex (net_up [ada]) (JStr ''U1'') st_saved
       = (Inr (Fulfilled (JStr ''Ada Lovelace'')), st_named)
   \<and> postToSlack env_ex (net_up [ada]) (JStr ''Ada Lovelace'') st_named
       = (Inr (Fulfilled (JStr ''ok'')),
          snd (postToSlack env_ex (net_up [ada]) (JStr ''Ada Lovelace'') st_named))
   \<and> (\<exists>m a. calls (snd (handle env_ex (net_up [ada]) (request_of body_saved) init))
               = calls st_named @
                 [\<lparr>url = JStr ''https://hooks.slack.example/T0'', http_method = ''POST'',
                   headers = [], data = JSON_stringify m\<rparr>]
            \<and> attachments m = [a]
            \<and> pretext a = ''An Entry has just been changed by Ada Lovelace. The full Entry is below in the fields. Here is the link to the entry: <https://app.contentful.com/spaces/sp/entries/e1|Link to Entry>''
            \<and> fallback a = pretext a
            \<and> username m = ''Webhook: hook'')"
proof -
  have t: "entry_text ''Ada Lovelace'' ''sp'' ''e1''
             = ''An Entry has just been changed by Ada Lovelace. The full Entry is below in the fields. Here is the link to the entry: <https://app.contentful.com/spaces/sp/entries/e1|Link to Entry>''"
    by code_simp
  have u: "''Webhook: '' @ var_text (header (request_of body_saved) ''x-contentful-webhook-name'')
             = ''Webhook: hook''"
    by code_simp
  have v: "env_value (slackURL env_ex) = JStr ''https://hooks.slack.example/T0''"
    by code_simp
  obtain m a name_text space entity where
    s: "ToString (JStr ''Ada Lovelace'') = Inr name_text" "ToString (JStr ''sp'') = Inr space"
      "ToString (JStr ''e1'') = Inr entity"
    and c: "calls (snd (handle env_ex (net_up [ada]) (request_of body_saved) init))
              = calls st_named @
                [\<lparr>url = env_value (slackURL env_ex), http_method = ''POST'', headers = [],
                  data = JSON_stringify m\<rparr>]"
      "attachments m = [a]" "pretext a = entry_text name_text space entity"
      "fallback a = entry_text name_text space entity"
      "username m = ''Webhook: '' @ var_text (header (request_of body_saved) ''x-contentful-webhook-name'')"
    using slack_message_texts [OF saved_run] by blast
  have "name_text = ''Ada Lovelace''" "space = ''sp''" "entity = ''e1''"
    using s by simp_all
  then have "calls (snd (handle env_ex (net_up [ada]) (request_of body_saved) init))
               = calls st_named @
                 [\<lparr>url = JStr ''https://hooks.slack.example/T0'', http_method = ''POST'',
                   headers = [], data = JSON_stringify m\<rparr>]
            \<and> attachments m = [a]
            \<and> pretext a = ''An Entry has just been changed by Ada Lovelace. The full Entry is below in the fields. Here is the link to the entry: <https://app.contentful.com/spaces/sp/entries/e1|Link to Entry>''
            \<and> fallback a = pretext a
            \<and> username m = ''Webhook: hook''"
    using c unfolding t u v by (simp only: t)
  then show ?thesis
    using saved_run by blast
qed

text \<open>
  C6, as the code has it. For every Entry-type request that reaches message composition and
  posts, with no other request handled between its assignments and its post, the data of the
  \<^verbatim>\<open>POST\<close> to the Slack URL is the JSON text of a message whose attachment has the fixed
  field \<^verbatim>\<open>Action applied to Entry\<close>, whose value is the topic header, followed by one
  field for each key of the payload's \<^verbatim>\<open>fields\<close>, in order, titled \<^verbatim>\<open>field.\<close> and
  the key, whose value is the \<^verbatim>\<open>en-US\<close> value under that key, \<^verbatim>\<open>undefined\<close> when
  there is none.
\<close>

theorem slack_message_fields:
  assumes ex: "extract_ids (request_body req) = Inr (i, spaceId, ty)"
    and entry: "loose_eq env ty (JStr ''Entry'') = Inr True"
    and prep: "prepare env req i spaceId ty (st\<lparr>body := request_body req\<rparr>) = (Inr (), st0)"
    and uid: "getUserId env net st0 = (Inr (Fulfilled userId), st1)"
    and name: "getUserName env net userId st1 = (Inr (Fulfilled displayName), st2)"
    and post: "postToSlack env net displayName st2 = (Inr p, st3)"
  shows "\<exists>m a. calls (snd (handle env net req st)) = calls st2 @
               [\<lparr>url = env_value (slackURL env), http_method = ''POST'', headers = [],
                 data = JSON_stringify m\<rparr>]
           \<and> attachments m = [a]
           \<and> fields_a a =
               \<lparr>title = ''Action applied to Entry'',
                value_field = env_value (header req ''x-contentful-topic''), short = False\<rparr>
               # map (\<lambda>key. \<lparr>title = ''field.'' @ key,
                              value_field = path (request_body req) [''fields'', key, ''en-US''],
                              short = False\<rparr>)
                     (forin_keys (path (request_body req) [''fields'']))"
proof -
  obtain name_text space entity where t: "ToString displayName = Inr name_text"
    "ToString spaceId = Inr space" "ToString i = Inr entity"
    using chain_texts [OF prep post] by blast
  note c = slack_call [OF ex entry prep uid name post t]
  show ?thesis
    by (intro exI conjI, rule c) (simp add: field_of_def del: path.simps)+
qed

text \<open>
  The claim for every Entry-type payload fails on the same schedule: the loop of line 163 runs
  over the \<^verbatim>\<open>fields\<close> of the asset that was handled in between, so the message posted for
  the entry with the fields \<^verbatim>\<open>title\<close> and \<^verbatim>\<open>body\<close> has the one extra field
  \<^verbatim>\<open>field.file\<close>.
\<close>

theorem slack_message_fields_counterexample:
  "forin_keys (path (request_body (request_of body_saved)) [''fields'']) = [''title'', ''body'']
   \<and> posted_fields (last (calls (snd (handle_overtaken env_ex (net_up [ada])
                                        (request_of body_saved) (request_of body_overtaking) init))))
       = [\<lparr>title = ''Action applied to Entry'', value_field = JStr ''entry.save'',
           short = False\<rparr>,
          \<lparr>title = ''field.file'', value_field = JStr ''logo.png'', short = False\<rparr>]
   \<and> fst (handle_overtaken env_ex (net_up [ada]) (request_of body_saved)
             (request_of body_overtaking) init)
       = Responded 200 (Text ''Slack post successful!'')"
  by code_simp

text \<open>
  The instance of the claim: the fields \<^verbatim>\<open>title\<close> and \<^verbatim>\<open>body\<close> with the values
  \<^verbatim>\<open>Hello\<close> and \<^verbatim>\<open>World\<close> give exactly two fields after the fixed one.
\<close>

theorem slack_message_fields_witness:
  "extract_ids (request_body (request_of body_saved))
     = Inr (JStr ''e1'', JStr ''sp'', JStr ''Entry'')
   \<and> loose_eq env_ex (JStr ''Entry'') (JStr ''Entry'') = Inr True
   \<and> prepare env_ex (request_of body_saved) (JStr ''e1'') (JStr ''sp'') (JStr ''Entry'')
        (init\<lparr>body := request_body (request_of body_saved)\<rparr>) = (Inr (), st_saved)
   \<and> getUserId env_ex (net_up [ada]) st_saved = (Inr (Fulfilled (JStr ''U1'')), st_saved)
   \<and> getUserName env_ex (net_up [ada]) (JStr ''U1'') st_saved
       = (Inr (Fulfilled (JStr ''Ada Lovelace'')), st_named)
   \<and> postToSlack env_ex (net_up [ada]) (JStr ''Ada Lovelace'') st_named
       = (Inr (Fulfilled (JStr ''ok'')),
          snd (postToSlack env_ex (net_up [ada]) (JStr ''Ada Lovelace'') st_named))
   \<and> (\<exists>m a. calls (snd (handle env_ex (net_up [ada]) (request_of body_saved) init))
               = calls st_named @
                 [\<lparr>url = JStr ''https://hooks.slack.example/T0'', http_method = ''POST'',
                   headers = [], data = JSON_stringify m\<rparr>]
            \<and> attachments m = [a]
            \<and> fields_a a =
                [\<lparr>title = ''Action applied to Entry'', value_field = JStr ''entry.save'',
                  short = False\<rparr>,
                 \<lparr>title = ''field.title'', value_field = JStr ''Hello'', short = False\<rparr>,
                 \<lparr>title = ''field.body'', value_field = JStr ''World'', short = False\<rparr>])"
proof -
  have f: "\<lparr>title = ''Action applied to Entry'',
            value_field = env_value (header (request_of body_saved) ''x-contentful-topic''),
            short = False\<rparr>
           # map (\<lambda>key. \<lparr>title = ''field.'' @ key,
                          value_field = path (request_body (request_of body_saved))
                                          [''fields'', key, ''en-US''],
                          short = False\<rparr>)
                 (forin_keys (path (request_body (request_of body_saved)) [''fields'']))
           = [\<lparr>title = ''Action applied to Entry'', value_field = JStr ''entry.save'',
               short = False\<rparr>,
              \<lparr>title = ''field.title'', value_field = JStr ''Hello'', short = False\<rparr>,
              \<lparr>title = ''field.body'', value_field = JStr ''World'', short = False\<rparr>]"
    by code_simp
  have v: "env_value (slackURL env_ex) = JStr ''https://hooks.slack.example/T0''"
    by code_simp
  have "\<exists>m a. calls (snd (handle env_ex (net_up [ada]) (request_of body_saved) init))
               = calls st_named @
                 [\<lparr>url = JStr ''https://hooks.slack.example/T0'', http_method = ''POST'',
                   headers = [], data = JSON_stringify m\<rparr>]
            \<and> attachments m = [a]
            \<and> fields_a a =
                [\<lparr>title = ''Action applied to Entry'', value_field = JStr ''entry.save'',
                  short = False\<rparr>,
                 \<lparr>title = ''field.title'', value_field = JStr ''Hello'', short = False\<rparr>,
                 \<lparr>title = ''field.body'', value_field = JStr ''World'', short = False\<rparr>]"
    using slack_message_fields [OF saved_run] unfolding f v .
  then show ?thesis
    using saved_run by blast
qed

subsection \<open>C7: failures\<close>

text \<open>
  C7, as the code has it. For every Entry-type request whose assignments of lines 60 to 81 are
  made and for which \<^verbatim>\<open>getUserId\<close> returns its promise, the handler responds by the
  first step that fails: with the error \<open>e\<close> of the rejected entity lookup, of the rejected
  users lookup or the lookup miss, of the message composition or of the rejected Slack post,
  it responds with status 500, hands the error object \<open>e\<close> to \<^verbatim>\<open>response.send\<close>, which
  sends an object as JSON, logs \<open>e\<close>, and ends in the state that the failing step left, so no
  later step has run; when no step fails it responds with status 200. In all cases exactly
  one Slack message is delivered when the response is the success message, and none
  otherwise.
\<close>

theorem failure_responds_500:
  assumes ex: "extract_ids (request_body req) = Inr (i, spaceId, ty)"
    and entry: "loose_eq env ty (JStr ''Entry'') = Inr True"
    and prep: "prepare env req i spaceId ty (st\<lparr>body := request_body req\<rparr>) = (Inr (), st0)"
    and uid: "getUserId env net st0 = (Inr p, st1)"
  shows "handle env net req st =
           (let failed = (\<lambda>error s. (Responded 500 (JSON_of_error error),
                                      s\<lparr>console := console s @ [(''error'', error)]\<rparr>))
            in case p of
                 Rejected e \<Rightarrow> failed e st1
               | Fulfilled userId \<Rightarrow>
                   (case getUserName env net userId st1 of
                      (Inl e, st2) \<Rightarrow> failed e st2
                    | (Inr (Rejected e), st2) \<Rightarrow> failed e st2
                    | (Inr (Fulfilled userName), st2) \<Rightarrow>
                        (case postToSlack env net userName st2 of
                           (Inl e, st3) \<Rightarrow> failed e st3
                         | (Inr (Rejected e), st3) \<Rightarrow> failed e st3
                         | (Inr (Fulfilled x), st3) \<Rightarrow>
                             (Responded 200 (Text ''Slack post successful!''), st3))))
         \<and> delivered net (calls st)
              (drop (length (calls st)) (calls (snd (handle env net req st))))
             = (if fst (handle env net req st) = Responded 200 (Text ''Slack post successful!'')
                then 1 else 0)"
proof
  show "delivered net (calls st)
              (drop (length (calls st)) (calls (snd (handle env net req st))))
             = (if fst (handle env net req st) = Responded 200 (Text ''Slack post successful!'')
                then 1 else 0)"
    by (rule delivered_handle)
qed (simp add: handle_Entry [OF ex entry prep] uid then_p_def respond_def fail_def Let_def
          split: promise.splits prod.splits sum.splits)

text \<open>
  The body of the response is not the string representation of the error: line 95 passes the
  error object itself, and what is sent for the rejected entity lookup is the JSON of that
  object, not a text.
\<close>

theorem failure_body_counterexample:
  "fst (handle env_ex net_down (request_of body_published) init)
     = Responded 500 (JSON_of_error (AxiosError ''Network Error''))
   \<and> \<not> is_text (fst (handle env_ex net_down (request_of body_published) init))
   \<and> console (snd (handle env_ex net_down (request_of body_published) init))
       = [(''error'', AxiosError ''Network Error'')]"
  by code_simp

lemma published_run:
  "extract_ids (request_body (request_of body_published))
     = Inr (JStr ''e1'', JStr ''sp'', JStr ''Entry'')"
  "loose_eq env_ex (JStr ''Entry'') (JStr ''Entry'') = Inr True"
  "prepare env_ex (request_of body_published) (JStr ''e1'') (JStr ''sp'') (JStr ''Entry'')
     (init\<lparr>body := request_body (request_of body_published)\<rparr>) = (Inr (), st_published)"
  "getUserId env_ex net_down st_published
     = (Inr (Rejected (AxiosError ''Network Error'')),
        st_published\<lparr>calls := [entity_request env_ex ''https://api.contentful.com/spaces/sp/undefined/undefined'']\<rparr>)"
  by code_simp+

theorem failure_responds_500_witness:
  "extract_ids (request_body (request_of body_published))
     = Inr (JStr ''e1'', JStr ''sp'', JStr ''Entry'')
   \<and> loose_eq env_ex (JStr ''Entry'') (JStr ''Entry'') = Inr True
   \<and> prepare env_ex (request_of body_published) (JStr ''e1'') (JStr ''sp'') (JStr ''Entry'')
        (init\<lparr>body := request_body (request_of body_published)\<rparr>) = (Inr (), st_published)
   \<and> getUserId env_ex net_down st_published
       = (Inr (Rejected (AxiosError ''Network Error'')),
          st_published\<lparr>calls := [entity_request env_ex ''https://api.contentful.com/spaces/sp/undefined/undefined'']\<rparr>)
   \<and> handle env_ex net_down (request_of body_published) init
       = (Responded 500 (JSON_of_error (AxiosError ''Network Error'')),
          st_published\<lparr>calls := [entity_request env_ex ''https://api.contentful.com/spaces/sp/undefined/undefined''],
                        console := [(''error'', AxiosError ''Network Error'')]\<rparr>)
   \<and> delivered net_down (calls init)
        (drop (length (calls init))
           (calls (snd (handle env_ex net_down (request_of body_published) init)))) = 0"
proof -
  note c = failure_responds_500 [OF published_run]
  have c0: "console st_published = []"
    by code_simp
  have h: "handle env_ex net_down (request_of body_published) init
       = (Responded 500 (JSON_of_error (AxiosError ''Network Error'')),
          st_published\<lparr>calls := [entity_request env_ex ''https://api.contentful.com/spaces/sp/undefined/undefined''],
                        console := [(''error'', AxiosError ''Network Error'')]\<rparr>)"
    using c by (simp add: c0)
  have "delivered net_down (calls init)
        (drop (length (calls init))
           (calls (snd (handle env_ex net_down (request_of body_published) init)))) = 0"
    using c unfolding h by simp
  then show ?thesis
    using published_run h by blast
qed

subsection \<open>C8: missing fields\<close>

text \<open>
  C8, as the code has it. The field extraction of lines 46 to 49 throws exactly when a
  container is missing (\<^verbatim>\<open>body\<close>, \<^verbatim>\<open>body.sys\<close>, \<^verbatim>\<open>body.sys.space\<close> or
  \<^verbatim>\<open>body.sys.space.sys\<close> is \<^verbatim>\<open>undefined\<close> or \<^verbatim>\<open>null\<close>): then a
  \<^verbatim>\<open>TypeError\<close> leaves the handler, with no response, call or log of its own. Otherwise
  the extraction succeeds, and a missing \<^verbatim>\<open>sys.id\<close>, \<^verbatim>\<open>sys.space.sys.id\<close> or
  \<^verbatim>\<open>sys.type\<close> is read as \<^verbatim>\<open>undefined\<close>.
\<close>

theorem extraction_throws_on_absent_parent:
  "if absent_parent (request_body req)
   then handle env net req st = (Uncaught TypeError, st\<lparr>body := request_body req\<rparr>)
   else extract_ids (request_body req)
          = Inr (path (request_body req) [''sys'', ''id''],
                 path (request_body req) [''sys'', ''space'', ''sys'', ''id''],
                 path (request_body req) [''sys'', ''type''])"
  by (simp add: handle_no_parent extract_ids_eq del: path.simps)

text \<open>
  The claim as stated fails on a body that lacks all three required fields and has
  \<^verbatim>\<open>sys.space.sys\<close>: nothing is thrown, and the request is answered with status 200 by
  the type filter.
\<close>

theorem missing_leaves_counterexample:
  "path body_leafless [''sys'', ''id''] = JUndef
   \<and> path body_leafless [''sys'', ''space'', ''sys'', ''id''] = JUndef
   \<and> path body_leafless [''sys'', ''type''] = JUndef
   \<and> handle env_ex net_down (request_of body_leafless) init
       = (Responded 200 (Text ''I am only posting entries to slack!''),
          init\<lparr>body := body_leafless\<rparr>)"
  by code_simp

theorem extraction_throws_on_absent_parent_witness:
  "absent_parent (request_body (request_of body_no_space))
   \<and> handle env_ex net_down (request_of body_no_space) init
       = (Uncaught TypeError, init\<lparr>body := request_body (request_of body_no_space)\<rparr>)"
proof -
  have h: "absent_parent (request_body (request_of body_no_space))"
    by code_simp
  show ?thesis
    using h extraction_throws_on_absent_parent [of "request_of body_no_space" env_ex net_down init] by simp
qed

subsection \<open>C9: the fragment of the entity lookup\<close>

text \<open>
  C9 at the published entry: the one entity lookup that \<^verbatim>\<open>getUserId\<close> issues has the
  fragment \<^verbatim>\<open>undefined\<close> and the id \<^verbatim>\<open>undefined\<close>, not \<^verbatim>\<open>entries\<close> and the id of
  the entry.
\<close>

theorem entity_lookup_fragment_undefined:
  "map url (calls (snd (getUserId env_ex (net_up [ada]) st_published)))
     = [JStr ''https://api.contentful.com/spaces/sp/undefined/undefined'']"
  by code_simp

subsection \<open>C10: requests one after the other\<close>

text \<open>
  C10. After any requests handled one after the other, the response to the next request, the
  calls it makes (so the message it posts) and what it logs are those of the same request on
  a process just started, whose module-level variables are unassigned: nothing that an
  earlier request left in \<^verbatim>\<open>body\<close>, the two URLs or the message template is read.
\<close>

theorem module_variables_do_not_leak:
  "let st' = snd (serve env net earlier st) in
     fst (handle env net req st') = fst (handle env net req (fresh st'))
     \<and> calls (snd (handle env net req st')) = calls (snd (handle env net req (fresh st')))
     \<and> console (snd (handle env net req st')) = console (snd (handle env net req (fresh st')))"
  by (simp add: Let_def handle_fresh)

end
